theory Spec2Isabelle
  imports Complex_Main
begin

section \<open>ScheduleMe: weekly shift assignment\<close>

text \<open>
  The repository has two Python files: \<open>AvailMatrBuilder.py\<close> reads a table of people
  and their free time ranges and turns it into an availability matrix, and
  \<open>solver.py\<close> builds a CP-SAT model from that matrix, hands it to the OR-tools solver
  and prints the roster.  Both are embedded here as HOL functions.  The solver itself
  is a library: what is modelled of it is the model it is given (variables with
  domains, linear and max/min constraints, an objective) and what it means for a
  valuation of the variables to satisfy that model.

  Hours are Python floats in the source.  Every time of the catalog is a multiple of a
  quarter of an hour, which a float holds exactly, and a parsed time is
  \<open>hour + minute / 60\<close>.  They are modelled as rationals; the rounding of the floating
  point division is not modelled.
\<close>

subsection \<open>Python errors and values\<close>

datatype py_error = ValueError | KeyError | TypeError

type_synonym ShiftId = "string \<times> rat \<times> rat"

text \<open>A shift of the catalog: \<open>(sid, day_abbr, start_hour, end_hour, staff_required)\<close>.\<close>

type_synonym shift = "string \<times> string \<times> rat \<times> rat \<times> int"

text \<open>\<open>availability_matrix\<close>: a dictionary of dictionaries, person to shift to 0 or 1.\<close>

type_synonym avail_matrix = "string \<rightharpoonup> (ShiftId \<rightharpoonup> int)"

subsection \<open>AvailMatrBuilder.py: the catalog of shifts\<close>

definition SHIFTS :: "shift list" where
  "SHIFTS =
    [(''S1'',  ''Mon'', 29 / 4, 9,  3),
     (''S2'',  ''Mon'', 9,      12, 4),
     (''S3'',  ''Mon'', 12,     15, 4),
     (''S4'',  ''Mon'', 15,     17, 4),
     (''S5'',  ''Mon'', 17,     19, 3),
     (''S6'',  ''Tue'', 29 / 4, 9,  3),
     (''S7'',  ''Tue'', 9,      12, 4),
     (''S8'',  ''Tue'', 12,     15, 4),
     (''S9'',  ''Tue'', 15,     17, 4),
     (''S10'', ''Tue'', 17,     19, 3),
     (''S11'', ''Wed'', 29 / 4, 9,  3),
     (''S12'', ''Wed'', 9,      12, 4),
     (''S13'', ''Wed'', 12,     15, 4),
     (''S14'', ''Wed'', 15,     17, 4),
     (''S15'', ''Wed'', 17,     19, 3),
     (''S16'', ''Thu'', 29 / 4, 9,  3),
     (''S17'', ''Thu'', 9,      12, 4),
     (''S18'', ''Thu'', 12,     15, 4),
     (''S19'', ''Thu'', 15,     17, 4),
     (''S20'', ''Thu'', 17,     19, 3),
     (''S21'', ''Fri'', 29 / 4, 9,  3),
     (''S22'', ''Fri'', 9,      12, 4),
     (''S23'', ''Fri'', 12,     15, 4),
     (''S24'', ''Fri'', 15,     17, 4),
     (''S25'', ''Sat'', 10,     14, 2),
     (''S26'', ''Sun'', 10,     14, 2)]"

definition DAY_ABBR_TO_COL :: "string \<rightharpoonup> string" where
  "DAY_ABBR_TO_COL =
     map_of [(''Mon'', ''MONDAY''), (''Tue'', ''TUESDAY''), (''Wed'', ''WEDNESDAY''),
             (''Thu'', ''THURSDAY''), (''Fri'', ''FRIDAY''), (''Sat'', ''SATURDAY''),
             (''Sun'', ''SUNDAY'')]"

subsection \<open>AvailMatrBuilder.py: Python's string methods\<close>

text \<open>
  Text is modelled as ASCII.  \<open>str.strip()\<close> removes the white space of both ends:
  tab, line feed, vertical tab, form feed, carriage return, the four separators
  \<open>0x1C\<close> to \<open>0x1F\<close> and the blank.
\<close>

definition py_isspace :: "char \<Rightarrow> bool" where
  "py_isspace c =
     (c \<in> set [CHR 0x09, CHR 0x0A, CHR 0x0B, CHR 0x0C, CHR 0x0D,
                CHR 0x1C, CHR 0x1D, CHR 0x1E, CHR 0x1F, CHR '' ''])"

definition strip :: "string \<Rightarrow> string" where
  "strip s = rev (dropWhile py_isspace (rev (dropWhile py_isspace s)))"

definition ascii_lowercase :: string where
  "ascii_lowercase = ''abcdefghijklmnopqrstuvwxyz''"

definition ascii_uppercase :: string where
  "ascii_uppercase = ''ABCDEFGHIJKLMNOPQRSTUVWXYZ''"

definition is_cased :: "char \<Rightarrow> bool" where
  "is_cased c = (c \<in> set ascii_lowercase \<or> c \<in> set ascii_uppercase)"

definition to_upper :: "char \<Rightarrow> char" where
  "to_upper c =
     (case map_of (zip ascii_lowercase ascii_uppercase) c of Some u \<Rightarrow> u | None \<Rightarrow> c)"

definition to_lower :: "char \<Rightarrow> char" where
  "to_lower c =
     (case map_of (zip ascii_uppercase ascii_lowercase) c of Some l \<Rightarrow> l | None \<Rightarrow> c)"

text \<open>
  \<open>str.title()\<close>: a letter that follows a letter is put in lower case, any other
  letter in upper case.
\<close>

fun title_loop :: "bool \<Rightarrow> string \<Rightarrow> string" where
  "title_loop previous_is_cased [] = []"
| "title_loop previous_is_cased (c # cs) =
     (if previous_is_cased then to_lower c else to_upper c) # title_loop (is_cased c) cs"

definition title :: "string \<Rightarrow> string" where
  "title s = title_loop False s"

subsection \<open>AvailMatrBuilder.py: parsing a time\<close>

text \<open>
  \<open>datetime.strptime(s, "%H:%M:%S")\<close> accepts three fields separated by colons and
  nothing else.  A field is one digit, or two digits that form an hour up to 23, a
  minute up to 59, a second up to 59.  Everything else raises \<open>ValueError\<close>.
\<close>

definition digit_val :: "char \<Rightarrow> nat option" where
  "digit_val c = map_of (zip ''0123456789'' [0, 1, 2, 3, 4, 5, 6, 7, 8, 9]) c"

fun split_colon :: "string \<Rightarrow> string list" where
  "split_colon [] = [[]]"
| "split_colon (c # cs) =
     (if c = CHR '':'' then [] # split_colon cs
      else (case split_colon cs of
              [] \<Rightarrow> [[c]]
            | f # fs \<Rightarrow> (c # f) # fs))"

definition time_field :: "nat \<Rightarrow> string \<Rightarrow> nat option" where
  "time_field bound f =
     (case f of
        [c] \<Rightarrow> digit_val c
      | [c, d] \<Rightarrow>
          (case (digit_val c, digit_val d) of
             (Some m, Some n) \<Rightarrow> if 10 * m + n \<le> bound then Some (10 * m + n) else None
           | _ \<Rightarrow> None)
      | _ \<Rightarrow> None)"

definition strptime_HMS :: "string \<Rightarrow> py_error + (nat \<times> nat \<times> nat)" where
  "strptime_HMS s =
     (case split_colon s of
        [h, m, sec] \<Rightarrow>
          (case (time_field 23 h, time_field 59 m, time_field 59 sec) of
             (Some hour, Some minute, Some second) \<Rightarrow> Inr (hour, minute, second)
           | _ \<Rightarrow> Inl ValueError)
      | _ \<Rightarrow> Inl ValueError)"

definition hhmm_to_float :: "string \<Rightarrow> py_error + rat" where
  "hhmm_to_float s =
     (case strptime_HMS (strip s) of
        Inl e \<Rightarrow> Inl e
      | Inr (hour, minute, second) \<Rightarrow> Inr (of_nat hour + of_nat minute / 60))"

subsection \<open>AvailMatrBuilder.py: parsing a cell\<close>

text \<open>
  A cell of the table: missing (\<open>NaN\<close>), a string, or any other value.  Of another
  value the loader uses nothing but its text, and it takes that text in two places:
  from the column, where \<open>astype(str)\<close> gives it, and from the row that \<open>iterrows()\<close>
  yields, where \<open>str()\<close> gives it.  The two can differ, because a row has one type for
  all its cells: an integer name beside a column of numbers is \<open>1\<close> in its column and
  \<open>1.0\<close> in its row.  So the value is kept with both texts, the column's first.
\<close>

datatype cell = NaN | Str string | Other string string

text \<open>
  What \<open>ast.literal_eval\<close> returns, as far as the loop over it can tell: a string, a
  container with its elements in the order of iteration, or a value that cannot be
  iterated (a number, \<open>None\<close>, a truth value).  \<open>ast.literal_eval\<close> is a library
  function: the model takes it as the parameter \<open>literal_eval\<close>, which gives \<open>None\<close>
  where the library raises an exception.
\<close>

datatype pyval = PyStr string | PySeq "pyval list" | PyAtom

fun py_iter :: "pyval \<Rightarrow> py_error + pyval list" where
  "py_iter (PyStr s) = Inr (map (\<lambda>c. PyStr [c]) s)"
| "py_iter (PySeq vs) = Inr vs"
| "py_iter PyAtom = Inl TypeError"

text \<open>The two halves of \<open>rng.split("-", 1)\<close>, for a string that contains the separator.\<close>

definition split_dash :: "string \<Rightarrow> string \<times> string" where
  "split_dash rng =
     (takeWhile (\<lambda>c. c \<noteq> CHR ''-'') rng, drop 1 (dropWhile (\<lambda>c. c \<noteq> CHR ''-'') rng))"

text \<open>The loop of \<open>_parse_ranges\<close> over the items.\<close>

fun parse_items :: "pyval list \<Rightarrow> py_error + (rat \<times> rat) list" where
  "parse_items [] = Inr []"
| "parse_items (PyStr rng # rest) =
     (if CHR ''-'' \<notin> set rng then parse_items rest
      else (case hhmm_to_float (fst (split_dash rng)) of
              Inl e \<Rightarrow> Inl e
            | Inr a \<Rightarrow>
                (case hhmm_to_float (snd (split_dash rng)) of
                   Inl e \<Rightarrow> Inl e
                 | Inr b \<Rightarrow>
                     (case parse_items rest of
                        Inl e \<Rightarrow> Inl e
                      | Inr out \<Rightarrow> Inr ((a, b) # out)))))"
| "parse_items (PySeq vs # rest) = parse_items rest"
| "parse_items (PyAtom # rest) = parse_items rest"

definition parse_ranges :: "(string \<Rightarrow> pyval option) \<Rightarrow> cell \<Rightarrow> py_error + (rat \<times> rat) list" where
  "parse_ranges literal_eval cell_str =
     (case cell_str of
        Str s \<Rightarrow>
          (case literal_eval s of
             None \<Rightarrow> Inr []
           | Some items \<Rightarrow>
               (case py_iter items of
                  Inl e \<Rightarrow> Inl e
                | Inr its \<Rightarrow> parse_items its))
      | _ \<Rightarrow> Inr [])"

subsection \<open>AvailMatrBuilder.py: loading the table\<close>

text \<open>
  The data frame that \<open>pd.read_excel\<close> returns: the names of its columns and its rows,
  a row giving the cell of every column.
\<close>

record dataframe =
  columns :: "string list"
  rows :: "(string \<Rightarrow> cell) list"

text \<open>\<open>InputData(students, availability_matrix, shifts)\<close>\<close>

datatype InputData = InputData "string list" avail_matrix "shift list"

definition name_col :: string where
  "name_col = ''STUDENT NAME''"

text \<open>The text of a cell in its column, after \<open>astype(str)\<close>.\<close>

definition column_str :: "cell \<Rightarrow> string" where
  "column_str c = (case c of NaN \<Rightarrow> ''nan'' | Str s \<Rightarrow> s | Other t u \<Rightarrow> t)"

text \<open>\<open>str(row[name_col])\<close>: the text of a cell in its row; of a missing cell it is \<open>nan\<close>.\<close>

definition row_str :: "cell \<Rightarrow> string" where
  "row_str c = (case c of NaN \<Rightarrow> ''nan'' | Str s \<Rightarrow> s | Other t u \<Rightarrow> u)"

text \<open>\<open>row.get(col, "")\<close>\<close>

definition row_get :: "dataframe \<Rightarrow> (string \<Rightarrow> cell) \<Rightarrow> string \<Rightarrow> cell" where
  "row_get df row col = (if col \<in> set (columns df) then row col else Str [])"

fun py_any :: "bool list \<Rightarrow> bool" where
  "py_any [] = False"
| "py_any (b # bs) = (if b then True else py_any bs)"

definition is_available :: "(rat \<times> rat) list \<Rightarrow> rat \<Rightarrow> rat \<Rightarrow> bool" where
  "is_available parsed start end = py_any (map (\<lambda>(a, b). a \<le> start \<and> end \<le> b) parsed)"

text \<open>The student list: the name column without its missing cells, stripped and titled.\<close>

definition student_names :: "dataframe \<Rightarrow> string list" where
  "student_names df =
     map (\<lambda>c. title (strip (column_str c)))
       (filter (\<lambda>c. c \<noteq> NaN) (map (\<lambda>row. row name_col) (rows df)))"

text \<open>The loop over the catalog for one row of the table.\<close>

fun shifts_loop ::
  "(string \<Rightarrow> pyval option) \<Rightarrow> dataframe \<Rightarrow> (string \<Rightarrow> cell) \<Rightarrow> string \<Rightarrow> shift list
     \<Rightarrow> avail_matrix \<Rightarrow> py_error + avail_matrix" where
  "shifts_loop literal_eval df row student [] am = Inr am"
| "shifts_loop literal_eval df row student ((lbl, d, start, end, req) # rest) am =
     (case DAY_ABBR_TO_COL d of
        None \<Rightarrow> Inl KeyError
      | Some col \<Rightarrow>
          (case parse_ranges literal_eval (row_get df row col) of
             Inl e \<Rightarrow> Inl e
           | Inr parsed \<Rightarrow>
               (case am student of
                  None \<Rightarrow> Inl KeyError
                | Some entries \<Rightarrow>
                    shifts_loop literal_eval df row student rest
                      (am(student \<mapsto>
                            entries((d, start, end) \<mapsto>
                              (if is_available parsed start end then 1 else 0)))))))"

text \<open>The loop over the rows of the table.\<close>

fun rows_loop ::
  "(string \<Rightarrow> pyval option) \<Rightarrow> dataframe \<Rightarrow> (string \<Rightarrow> cell) list
     \<Rightarrow> avail_matrix \<Rightarrow> py_error + avail_matrix" where
  "rows_loop literal_eval df [] am = Inr am"
| "rows_loop literal_eval df (row # rest) am =
     (case shifts_loop literal_eval df row (title (strip (row_str (row name_col)))) SHIFTS am of
        Inl e \<Rightarrow> Inl e
      | Inr am' \<Rightarrow> rows_loop literal_eval df rest am')"

definition load_input_from_excel :: "(string \<Rightarrow> pyval option) \<Rightarrow> dataframe \<Rightarrow> py_error + InputData" where
  "load_input_from_excel literal_eval df =
     (if name_col \<notin> set (columns df) then Inl ValueError
      else (let students = student_names df;
                availability_matrix = (\<lambda>s. if s \<in> set students then Some Map.empty else None)
            in case rows_loop literal_eval df (rows df) availability_matrix of
                 Inl e \<Rightarrow> Inl e
               | Inr am \<Rightarrow> Inr (InputData students am SHIFTS)))"

subsection \<open>solver.py: configuration\<close>

definition MAX_WEEKLY_HOURS :: int where
  "MAX_WEEKLY_HOURS = 20"

definition ENFORCE_MAX_SHIFTS_PER_DAY :: bool where
  "ENFORCE_MAX_SHIFTS_PER_DAY = False"

definition MAX_SHIFTS_PER_DAY :: int where
  "MAX_SHIFTS_PER_DAY = 2"

definition ENFORCE_MAX_DAILY_HOURS :: bool where
  "ENFORCE_MAX_DAILY_HOURS = False"

definition MAX_DAILY_HOURS :: int where
  "MAX_DAILY_HOURS = 8"

definition SCALE :: int where
  "SCALE = 4"

text \<open>
  Python's \<open>round\<close> on a float rounds to the nearest integer and a tie to the even
  neighbour; \<open>int\<close> of the result is the same number.
\<close>

definition py_round :: "rat \<Rightarrow> int" where
  "py_round q =
     (let f = \<lfloor>q\<rfloor>; d = q - of_int f
      in if d < 1 / 2 then f
         else if 1 / 2 < d then f + 1
         else if even f then f else f + 1)"

text \<open>
  \<open>shift_lengths\<close>: the dictionary filled by the loop over the catalog, keyed by
  \<open>(day, start, end)\<close>, holding the length of the shift in quarter hours.
\<close>

fun shift_lengths_loop :: "shift list \<Rightarrow> (ShiftId \<rightharpoonup> int) \<Rightarrow> (ShiftId \<rightharpoonup> int)" where
  "shift_lengths_loop [] m = m"
| "shift_lengths_loop ((lbl, day, start, end, req) # rest) m =
     shift_lengths_loop rest
       (m((day, start, end) \<mapsto> py_round ((end - start) * of_int SCALE)))"

definition shift_lengths :: "shift list \<Rightarrow> (ShiftId \<rightharpoonup> int)" where
  "shift_lengths shifts = shift_lengths_loop shifts Map.empty"

subsection \<open>solver.py: the constraint model\<close>

text \<open>
  The variables of the model.  The source keeps the assignment variables in the
  dictionary \<open>x\<close> under the key \<open>((day, start, end), student)\<close> and the load variables in
  \<open>total_hours\<close> under the student; a variable is identified here with its key.  When a
  key occurs twice (a name twice in \<open>students\<close>) the source creates a second solver
  variable and the dictionary keeps the later one; the earlier one is then mentioned
  by no constraint and never read back.
\<close>

datatype var = X ShiftId string | TotalHours string | MaxH | MinH

text \<open>A linear expression: a sum of coefficient times variable.\<close>

type_synonym lin = "(int \<times> var) list"

datatype constraint =
    LinEq lin int           \<comment> \<open>\<open>model.Add(expr == c)\<close>\<close>
  | LinLe lin int           \<comment> \<open>\<open>model.Add(expr <= c)\<close>\<close>
  | VarEq var lin           \<comment> \<open>\<open>model.Add(v == expr)\<close>\<close>
  | MaxEquality var "var list"   \<comment> \<open>\<open>model.AddMaxEquality(v, vs)\<close>\<close>
  | MinEquality var "var list"   \<comment> \<open>\<open>model.AddMinEquality(v, vs)\<close>\<close>

record model =
  variables :: "(var \<times> int \<times> int) list"   \<comment> \<open>each with its domain \<open>[lo, hi]\<close>\<close>
  constraints :: "constraint list"
  objective :: "lin option"                \<comment> \<open>the expression to minimise\<close>

text \<open>Decision variables: one \<open>NewBoolVar\<close> for every shift and every student.\<close>

definition decision_vars :: "string list \<Rightarrow> shift list \<Rightarrow> (var \<times> int \<times> int) list" where
  "decision_vars students shifts =
     concat (map (\<lambda>(lbl, day, start, end, req).
                    map (\<lambda>s. (X (day, start, end) s, 0, 1)) students) shifts)"

text \<open>1) Coverage: exactly the required staff on every shift.\<close>

definition coverage :: "string list \<Rightarrow> shift list \<Rightarrow> constraint list" where
  "coverage students shifts =
     map (\<lambda>(lbl, day, start, end, req).
            LinEq (map (\<lambda>s. (1, X (day, start, end) s)) students) req) shifts"

text \<open>\<open>availability_matrix.get(s, {}).get(sid, 0)\<close>\<close>

definition avail_get :: "avail_matrix \<Rightarrow> string \<Rightarrow> ShiftId \<Rightarrow> int" where
  "avail_get am s sid =
     (case am s of
        None \<Rightarrow> 0
      | Some row \<Rightarrow> (case row sid of None \<Rightarrow> 0 | Some v \<Rightarrow> v))"

text \<open>2) Availability: a variable of a pair that is not available is forced to 0.\<close>

definition availability :: "string list \<Rightarrow> shift list \<Rightarrow> avail_matrix \<Rightarrow> constraint list" where
  "availability students shifts am =
     concat (map (\<lambda>(lbl, day, start, end, req).
                    concat (map (\<lambda>s. if avail_get am s (day, start, end) = 0
                                      then [LinEq [(1, X (day, start, end) s)] 0]
                                      else []) students)) shifts)"

text \<open>
  The sum \<open>x[(sid, s)] * shift_lengths[sid]\<close> over a list of shift keys; a key that the
  dictionary lacks raises \<open>KeyError\<close>.
\<close>

fun hours_expr :: "(ShiftId \<rightharpoonup> int) \<Rightarrow> string \<Rightarrow> ShiftId list \<Rightarrow> py_error + lin" where
  "hours_expr sl s [] = Inr []"
| "hours_expr sl s (sid # rest) =
     (case sl sid of
        None \<Rightarrow> Inl KeyError
      | Some n \<Rightarrow>
          (case hours_expr sl s rest of
             Inl e \<Rightarrow> Inl e
           | Inr ts \<Rightarrow> Inr ((n, X sid s) # ts)))"

definition shift_ids :: "shift list \<Rightarrow> ShiftId list" where
  "shift_ids shifts = map (\<lambda>(lbl, day, start, end, req). (day, start, end)) shifts"

text \<open>3) Weekly hour limit, one constraint for every student.\<close>

fun weekly_limit :: "(ShiftId \<rightharpoonup> int) \<Rightarrow> shift list \<Rightarrow> string list \<Rightarrow> py_error + constraint list" where
  "weekly_limit sl shifts [] = Inr []"
| "weekly_limit sl shifts (s # rest) =
     (case hours_expr sl s (shift_ids shifts) of
        Inl e \<Rightarrow> Inl e
      | Inr total_hours_scaled \<Rightarrow>
          (case weekly_limit sl shifts rest of
             Inl e \<Rightarrow> Inl e
           | Inr cs \<Rightarrow> Inr (LinLe total_hours_scaled (MAX_WEEKLY_HOURS * SCALE) # cs)))"

text \<open>
  The optional daily policies group the shifts by day:
  \<open>by_day.setdefault(day, []).append(sid)\<close> on a dictionary that keeps the order in
  which its keys were first inserted.
\<close>

fun setdefault_append :: "'k \<Rightarrow> 'v \<Rightarrow> ('k \<times> 'v list) list \<Rightarrow> ('k \<times> 'v list) list" where
  "setdefault_append k v [] = [(k, [v])]"
| "setdefault_append k v ((k', vs) # rest) =
     (if k = k' then (k', vs @ [v]) # rest else (k', vs) # setdefault_append k v rest)"

fun by_day_loop :: "shift list \<Rightarrow> (string \<times> ShiftId list) list \<Rightarrow> (string \<times> ShiftId list) list" where
  "by_day_loop [] d = d"
| "by_day_loop ((lbl, day, start, end, req) # rest) d =
     by_day_loop rest (setdefault_append day (day, start, end) d)"

definition by_day :: "shift list \<Rightarrow> (string \<times> ShiftId list) list" where
  "by_day shifts = by_day_loop shifts []"

text \<open>4) Optional: at most \<open>MAX_SHIFTS_PER_DAY\<close> shifts a day for every student.\<close>

definition shifts_per_day :: "string list \<Rightarrow> shift list \<Rightarrow> constraint list" where
  "shifts_per_day students shifts =
     concat (map (\<lambda>s.
       map (\<lambda>(day, sids).
              LinLe (map (\<lambda>(d, st, en). (1, X (day, st, en) s)) sids) MAX_SHIFTS_PER_DAY)
           (by_day shifts)) students)"

text \<open>5) Optional: at most \<open>MAX_DAILY_HOURS\<close> hours a day for every student.\<close>

fun daily_hours_days :: "(ShiftId \<rightharpoonup> int) \<Rightarrow> string \<Rightarrow> (string \<times> ShiftId list) list \<Rightarrow> py_error + constraint list" where
  "daily_hours_days sl s [] = Inr []"
| "daily_hours_days sl s ((day, sid_list) # rest) =
     (case hours_expr sl s sid_list of
        Inl e \<Rightarrow> Inl e
      | Inr ex \<Rightarrow>
          (case daily_hours_days sl s rest of
             Inl e \<Rightarrow> Inl e
           | Inr cs \<Rightarrow> Inr (LinLe ex (MAX_DAILY_HOURS * SCALE) # cs)))"

fun daily_hours :: "(ShiftId \<rightharpoonup> int) \<Rightarrow> shift list \<Rightarrow> string list \<Rightarrow> py_error + constraint list" where
  "daily_hours sl shifts [] = Inr []"
| "daily_hours sl shifts (s # rest) =
     (case daily_hours_days sl s (by_day shifts) of
        Inl e \<Rightarrow> Inl e
      | Inr cs \<Rightarrow>
          (case daily_hours sl shifts rest of
             Inl e \<Rightarrow> Inl e
           | Inr cs' \<Rightarrow> Inr (cs @ cs')))"

text \<open>
  6) Fairness.  \<open>total_hours\<close> is a dictionary comprehension over \<open>students\<close>: one
  \<open>NewIntVar\<close> for every element of the list, and one key for every distinct name, in
  the order of first occurrence.
\<close>

definition total_hours_vars :: "string list \<Rightarrow> (var \<times> int \<times> int) list" where
  "total_hours_vars students =
     map (\<lambda>s. (TotalHours s, 0, MAX_WEEKLY_HOURS * SCALE)) students"

fun dict_keys :: "'a list \<Rightarrow> 'a list \<Rightarrow> 'a list" where
  "dict_keys [] seen = []"
| "dict_keys (k # ks) seen =
     (if k \<in> set seen then dict_keys ks seen else k # dict_keys ks (k # seen))"

definition total_hours_values :: "string list \<Rightarrow> var list" where
  "total_hours_values students = map TotalHours (dict_keys students [])"

fun total_hours_defs :: "(ShiftId \<rightharpoonup> int) \<Rightarrow> shift list \<Rightarrow> string list \<Rightarrow> py_error + constraint list" where
  "total_hours_defs sl shifts [] = Inr []"
| "total_hours_defs sl shifts (s # rest) =
     (case hours_expr sl s (shift_ids shifts) of
        Inl e \<Rightarrow> Inl e
      | Inr ex \<Rightarrow>
          (case total_hours_defs sl shifts rest of
             Inl e \<Rightarrow> Inl e
           | Inr cs \<Rightarrow> Inr (VarEq (TotalHours s) ex # cs)))"

text \<open>The whole model, in the order in which the script builds it.\<close>

definition build_model :: "string list \<Rightarrow> avail_matrix \<Rightarrow> shift list \<Rightarrow> py_error + model" where
  "build_model students availability_matrix shifts =
     (let sl = shift_lengths shifts
      in case weekly_limit sl shifts students of
           Inl e \<Rightarrow> Inl e
         | Inr weekly \<Rightarrow>
         (case (if ENFORCE_MAX_DAILY_HOURS then daily_hours sl shifts students else Inr []) of
            Inl e \<Rightarrow> Inl e
          | Inr daily \<Rightarrow>
          (case total_hours_defs sl shifts students of
             Inl e \<Rightarrow> Inl e
           | Inr totals \<Rightarrow>
               Inr \<lparr> variables =
                       decision_vars students shifts
                       @ total_hours_vars students
                       @ [(MaxH, 0, MAX_WEEKLY_HOURS * SCALE),
                          (MinH, 0, MAX_WEEKLY_HOURS * SCALE)],
                     constraints =
                       coverage students shifts
                       @ availability students shifts availability_matrix
                       @ weekly
                       @ (if ENFORCE_MAX_SHIFTS_PER_DAY
                          then shifts_per_day students shifts else [])
                       @ daily
                       @ totals
                       @ [MaxEquality MaxH (total_hours_values students),
                          MinEquality MinH (total_hours_values students)],
                     objective = Some [(1, MaxH), (- 1, MinH)] \<rparr>)))"

subsection \<open>What the solver guarantees\<close>

text \<open>
  A valuation gives every variable an integer.  It is a solution of a model when every
  variable lies in its domain and every constraint holds.  The maximum or minimum of
  no variables is satisfied by no valuation.
\<close>

fun eval_lin :: "(var \<Rightarrow> int) \<Rightarrow> lin \<Rightarrow> int" where
  "eval_lin \<sigma> [] = 0"
| "eval_lin \<sigma> ((c, v) # ts) = c * \<sigma> v + eval_lin \<sigma> ts"

fun max_of :: "int list \<Rightarrow> int option" where
  "max_of [] = None"
| "max_of (n # ns) = Some (fold max ns n)"

fun min_of :: "int list \<Rightarrow> int option" where
  "min_of [] = None"
| "min_of (n # ns) = Some (fold min ns n)"

fun satisfies :: "(var \<Rightarrow> int) \<Rightarrow> constraint \<Rightarrow> bool" where
  "satisfies \<sigma> (LinEq ts c) = (eval_lin \<sigma> ts = c)"
| "satisfies \<sigma> (LinLe ts c) = (eval_lin \<sigma> ts \<le> c)"
| "satisfies \<sigma> (VarEq v ts) = (\<sigma> v = eval_lin \<sigma> ts)"
| "satisfies \<sigma> (MaxEquality v vs) = (max_of (map \<sigma> vs) = Some (\<sigma> v))"
| "satisfies \<sigma> (MinEquality v vs) = (min_of (map \<sigma> vs) = Some (\<sigma> v))"

definition in_domain :: "(var \<Rightarrow> int) \<Rightarrow> var \<times> int \<times> int \<Rightarrow> bool" where
  "in_domain \<sigma> d = (case d of (v, lo, hi) \<Rightarrow> lo \<le> \<sigma> v \<and> \<sigma> v \<le> hi)"

definition solution :: "(var \<Rightarrow> int) \<Rightarrow> model \<Rightarrow> bool" where
  "solution \<sigma> m = (list_all (in_domain \<sigma>) (variables m) \<and> list_all (satisfies \<sigma>) (constraints m))"

text \<open>The value of the objective under a valuation.\<close>

definition objective_value :: "(var \<Rightarrow> int) \<Rightarrow> model \<Rightarrow> int option" where
  "objective_value \<sigma> m = map_option (eval_lin \<sigma>) (objective m)"

subsection \<open>solver.py: solving and reporting\<close>

datatype status = UNKNOWN | MODEL_INVALID | FEASIBLE | INFEASIBLE | OPTIMAL

text \<open>
  What the script prints: for every shift its label, day, start, end, the number of
  people assigned, the number required and their names; for every student the hours;
  and the fairness gap.  Otherwise the line that no schedule was found, with the status.
\<close>

datatype report =
    Schedule "(string \<times> string \<times> rat \<times> rat \<times> nat \<times> int \<times> string list) list"
             "(string \<times> rat) list" rat
  | NoFeasibleSchedule status

definition assigned :: "(var \<Rightarrow> int) \<Rightarrow> string list \<Rightarrow> ShiftId \<Rightarrow> string list" where
  "assigned \<sigma> students sid = filter (\<lambda>s. \<sigma> (X sid s) = 1) students"

definition report_of :: "status \<Rightarrow> (var \<Rightarrow> int) \<Rightarrow> string list \<Rightarrow> shift list \<Rightarrow> report" where
  "report_of st \<sigma> students shifts =
     (if st = OPTIMAL \<or> st = FEASIBLE
      then Schedule
             (map (\<lambda>(lbl, day, start, end, req).
                     (lbl, day, start, end,
                      length (assigned \<sigma> students (day, start, end)), req,
                      assigned \<sigma> students (day, start, end))) shifts)
             (map (\<lambda>s. (s, of_int (\<sigma> (TotalHours s)) / of_int SCALE)) students)
             (of_int (\<sigma> MaxH - \<sigma> MinH) / of_int SCALE)
      else NoFeasibleSchedule st)"

text \<open>
  The solver is sound: when it answers \<open>OPTIMAL\<close> or \<open>FEASIBLE\<close>, the values it gives
  back are a solution of the model.
\<close>

definition sound_answer :: "model \<Rightarrow> status \<Rightarrow> (var \<Rightarrow> int) \<Rightarrow> bool" where
  "sound_answer m st \<sigma> = (if st = OPTIMAL \<or> st = FEASIBLE then solution \<sigma> m else True)"

subsection \<open>solver.py: the script\<close>

text \<open>
  The script as a whole: load the table, build the model, solve, report.  The solver
  is a parameter: it answers a model with a status and the values of the variables.
\<close>

definition main ::
  "(string \<Rightarrow> pyval option) \<Rightarrow> dataframe \<Rightarrow> (model \<Rightarrow> status \<times> (var \<Rightarrow> int))
     \<Rightarrow> py_error + report" where
  "main literal_eval df solve =
     (case load_input_from_excel literal_eval df of
        Inl e \<Rightarrow> Inl e
      | Inr (InputData students availability_matrix shifts) \<Rightarrow>
          (case build_model students availability_matrix shifts of
             Inl e \<Rightarrow> Inl e
           | Inr m \<Rightarrow>
               (case solve m of (st, \<sigma>) \<Rightarrow> Inr (report_of st \<sigma> students shifts))))"

subsection \<open>Notions used in the statements\<close>

text \<open>The length of a shift in quarter hours, as the loop over the catalog computes it.\<close>

definition shift_len :: "ShiftId \<Rightarrow> int" where
  "shift_len sid = (case sid of (day, start, end) \<Rightarrow> py_round ((end - start) * of_int SCALE))"

text \<open>The expression of a student's load that \<open>hours_expr\<close> builds over the catalog.\<close>

definition load_expr :: "string \<Rightarrow> ShiftId list \<Rightarrow> lin" where
  "load_expr s sids = map (\<lambda>sid. (shift_len sid, X sid s)) sids"

text \<open>A student's load in quarter hours under a valuation.\<close>

definition scaled_load :: "(var \<Rightarrow> int) \<Rightarrow> shift list \<Rightarrow> string \<Rightarrow> int" where
  "scaled_load \<sigma> shifts s =
     (\<Sum>(lbl, day, start, end, req) \<leftarrow> shifts.
        \<sigma> (X (day, start, end) s) * py_round ((end - start) * of_int SCALE))"

text \<open>The quarter hours of work that the catalog requires: headcount times length.\<close>

definition total_demand :: "shift list \<Rightarrow> int" where
  "total_demand shifts =
     (\<Sum>(lbl, day, start, end, req) \<leftarrow> shifts.
        req * py_round ((end - start) * of_int SCALE))"

text \<open>The key under which a row of the table is stored.\<close>

definition row_student :: "(string \<Rightarrow> cell) \<Rightarrow> string" where
  "row_student row = title (strip (row_str (row name_col)))"

text \<open>The body of the loop over the catalog, up to the store into the matrix.\<close>

definition sid_entry ::
  "(string \<Rightarrow> pyval option) \<Rightarrow> dataframe \<Rightarrow> (string \<Rightarrow> cell) \<Rightarrow> ShiftId \<Rightarrow> py_error + int" where
  "sid_entry literal_eval df row sid =
     (case sid of (d, start, end) \<Rightarrow>
        (case DAY_ABBR_TO_COL d of
           None \<Rightarrow> Inl KeyError
         | Some col \<Rightarrow>
             (case parse_ranges literal_eval (row_get df row col) of
                Inl e \<Rightarrow> Inl e
              | Inr parsed \<Rightarrow> Inr (if is_available parsed start end then 1 else 0))))"

text \<open>An item of a cell's list that \<open>_parse_ranges\<close> does not skip.\<close>

fun has_separator :: "pyval \<Rightarrow> bool" where
  "has_separator (PyStr rng) = (CHR ''-'' \<in> set rng)"
| "has_separator (PySeq vs) = False"
| "has_separator PyAtom = False"

subsection \<open>A small instance\<close>

text \<open>
  Two students and one shift of three hours that needs one person; only Ann is free.
  The valuation assigns the shift to Ann.
\<close>

definition example_students :: "string list" where
  "example_students = [''Ann'', ''Bob'']"

definition example_shifts :: "shift list" where
  "example_shifts = [(''S1'', ''Mon'', 9, 12, 1)]"

definition example_matrix :: avail_matrix where
  "example_matrix =
     [''Ann'' \<mapsto> [(''Mon'', 9, 12) \<mapsto> 1], ''Bob'' \<mapsto> [(''Mon'', 9, 12) \<mapsto> 0]]"

definition example_valuation :: "var \<Rightarrow> int" where
  "example_valuation v =
     (if v = X (''Mon'', 9, 12) ''Ann'' then 1
      else if v = TotalHours ''Ann'' then 12
      else if v = MaxH then 12
      else 0)"

text \<open>
  Tables for the loader.  \<open>example_literal_eval\<close> gives what \<open>ast.literal_eval\<close>
  returns on the five cell texts that the tables use.  Beyond them it is applied to the
  empty text and to \<open>9 to 12\<close> only, on which the library raises \<open>SyntaxError\<close>.
\<close>

definition example_literal_eval :: "string \<Rightarrow> pyval option" where
  "example_literal_eval =
     map_of
       [(''['07:00:00 - 12:00:00']'', PySeq [PyStr ''07:00:00 - 12:00:00'']),
        (''['09:00:00 - 12:00:00', 'junk']'',
           PySeq [PyStr ''09:00:00 - 12:00:00'', PyStr ''junk'']),
        (''['ab - cd']'', PySeq [PyStr ''ab - cd'']),
        (''['junk']'', PySeq [PyStr ''junk'']),
        (''['07:00:00 - 19:00:00']'', PySeq [PyStr ''07:00:00 - 19:00:00''])]"

text \<open>One person, free on Monday from 7 to 12; the table has no other weekday column.\<close>

definition example_row :: "string \<Rightarrow> cell" where
  "example_row c =
     (if c = ''STUDENT NAME'' then Str ''  ann lee ''
      else if c = ''MONDAY'' then Str ''['07:00:00 - 12:00:00']''
      else NaN)"

definition example_table :: dataframe where
  "example_table = \<lparr> columns = [''STUDENT NAME'', ''MONDAY''], rows = [example_row] \<rparr>"

text \<open>A table whose Monday cell holds a range that is not a time.\<close>

definition bad_row :: "string \<Rightarrow> cell" where
  "bad_row c =
     (if c = ''STUDENT NAME'' then Str ''Ann''
      else if c = ''MONDAY'' then Str ''['ab - cd']''
      else NaN)"

definition bad_table :: dataframe where
  "bad_table = \<lparr> columns = [''STUDENT NAME'', ''MONDAY''], rows = [bad_row] \<rparr>"

text \<open>A table whose Monday cell holds a list with no range in it.\<close>

definition junk_row :: "string \<Rightarrow> cell" where
  "junk_row c =
     (if c = ''STUDENT NAME'' then Str ''Ann''
      else if c = ''MONDAY'' then Str ''['junk']''
      else NaN)"

definition junk_table :: dataframe where
  "junk_table = \<lparr> columns = [''STUDENT NAME'', ''MONDAY''], rows = [junk_row] \<rparr>"

text \<open>A table with two rows whose names differ in case and in white space only.\<close>

definition duplicate_table :: dataframe where
  "duplicate_table =
     \<lparr> columns = [''STUDENT NAME''],
       rows = [\<lambda>c. if c = ''STUDENT NAME'' then Str ''alice'' else NaN,
               \<lambda>c. if c = ''STUDENT NAME'' then Str '' ALICE '' else NaN] \<rparr>"

text \<open>
  A table with the integer 1 as a name and an empty Monday column, which makes the row
  a row of floating point numbers: the name is \<open>1\<close> in the column and \<open>1.0\<close> in the
  row.
\<close>

definition numeric_row :: "string \<Rightarrow> cell" where
  "numeric_row c = (if c = ''STUDENT NAME'' then Other ''1'' ''1.0'' else NaN)"

definition numeric_table :: dataframe where
  "numeric_table = \<lparr> columns = [''STUDENT NAME'', ''MONDAY''], rows = [numeric_row] \<rparr>"

subsection \<open>A full week with a repeated name\<close>

text \<open>
  A table of twelve rows for eleven people: the last two rows are the same name in two
  spellings.  Every weekday cell says the person is free from 7 to 19, which covers
  every shift of the catalog.
\<close>

definition crowd_names :: "string list" where
  "crowd_names =
     [''Ann'', ''Bob'', ''Cal'', ''Dee'', ''Eve'', ''Fay'', ''Gus'', ''Hal'', ''Ida'', ''Jon'',
      ''Dana'', ''dana '']"

definition crowd_row :: "string \<Rightarrow> string \<Rightarrow> cell" where
  "crowd_row n c = (if c = ''STUDENT NAME'' then Str n else Str ''['07:00:00 - 19:00:00']'')"

definition crowd_table :: dataframe where
  "crowd_table =
     \<lparr> columns = [''STUDENT NAME'', ''MONDAY'', ''TUESDAY'', ''WEDNESDAY'', ''THURSDAY'',
                  ''FRIDAY'', ''SATURDAY'', ''SUNDAY''],
       rows = map crowd_row crowd_names \<rparr>"

text \<open>The student list that the loader makes of this table.\<close>

definition crowd_students :: "string list" where
  "crowd_students =
     [''Ann'', ''Bob'', ''Cal'', ''Dee'', ''Eve'', ''Fay'', ''Gus'', ''Hal'', ''Ida'', ''Jon'',
      ''Dana'', ''Dana'']"

text \<open>
  A roster for the week and the valuation that goes with it: who works which shift,
  the load of every person in quarter hours, and the largest and smallest load.
\<close>

definition crowd_assignment :: "(ShiftId \<times> string list) list" where
  "crowd_assignment =
    [((''Mon'', 29 / 4, 9),  [''Ann'', ''Bob'', ''Cal'']),
     ((''Mon'', 9,      12), [''Ida'', ''Jon'', ''Dana'']),
     ((''Mon'', 12,     15), [''Ida'', ''Jon'', ''Dana'']),
     ((''Mon'', 15,     17), [''Ann'', ''Bob'', ''Cal'', ''Hal'']),
     ((''Mon'', 17,     19), [''Ann'', ''Bob'', ''Cal'']),
     ((''Tue'', 29 / 4, 9),  [''Eve'', ''Fay'', ''Gus'']),
     ((''Tue'', 9,      12), [''Eve'', ''Fay'', ''Dana'']),
     ((''Tue'', 12,     15), [''Gus'', ''Ida'', ''Dana'']),
     ((''Tue'', 15,     17), [''Eve'', ''Fay'', ''Gus'', ''Jon'']),
     ((''Tue'', 17,     19), [''Ann'', ''Bob'', ''Cal'']),
     ((''Wed'', 29 / 4, 9),  [''Ann'', ''Bob'', ''Cal'']),
     ((''Wed'', 9,      12), [''Ann'', ''Bob'', ''Cal'', ''Dee'']),
     ((''Wed'', 12,     15), [''Ann'', ''Bob'', ''Cal'', ''Dee'']),
     ((''Wed'', 15,     17), [''Ann'', ''Bob'', ''Cal'', ''Dee'']),
     ((''Wed'', 17,     19), [''Ann'', ''Bob'', ''Cal'']),
     ((''Thu'', 29 / 4, 9),  [''Eve'', ''Fay'', ''Gus'']),
     ((''Thu'', 9,      12), [''Eve'', ''Fay'', ''Gus'', ''Hal'']),
     ((''Thu'', 12,     15), [''Eve'', ''Fay'', ''Gus'', ''Hal'']),
     ((''Thu'', 15,     17), [''Eve'', ''Fay'', ''Gus'', ''Hal'']),
     ((''Thu'', 17,     19), [''Eve'', ''Fay'', ''Gus'']),
     ((''Fri'', 29 / 4, 9),  [''Dee'', ''Ida'', ''Jon'']),
     ((''Fri'', 9,      12), [''Dee'', ''Hal'', ''Ida'', ''Jon'']),
     ((''Fri'', 12,     15), [''Dee'', ''Hal'', ''Ida'', ''Jon'']),
     ((''Fri'', 15,     17), [''Dee'', ''Hal'', ''Ida'', ''Jon'']),
     ((''Sat'', 10,     14), [''Dana'']),
     ((''Sun'', 10,     14), [''Dana''])]"

definition crowd_hours :: "(string \<times> int) list" where
  "crowd_hours =
     [(''Ann'', 78), (''Bob'', 78), (''Cal'', 78), (''Dee'', 71), (''Eve'', 74), (''Fay'', 74),
      (''Gus'', 74), (''Hal'', 72), (''Ida'', 75), (''Jon'', 71), (''Dana'', 80)]"

definition crowd_roster :: "var \<Rightarrow> int" where
  "crowd_roster v =
     (case v of
        X sid s \<Rightarrow>
          (case map_of crowd_assignment sid of
             None \<Rightarrow> 0
           | Some names \<Rightarrow> if s \<in> set names then 1 else 0)
      | TotalHours s \<Rightarrow> (case map_of crowd_hours s of None \<Rightarrow> 0 | Some h \<Rightarrow> h)
      | MaxH \<Rightarrow> 80
      | MinH \<Rightarrow> 71)"

section \<open>The model that the script builds\<close>

lemma shift_lengths_loop_lookup:
  "shift_lengths_loop shifts m sid =
     (if sid \<in> set (shift_ids shifts) then Some (shift_len sid) else m sid)"
proof (induction shifts arbitrary: m)
  case Nil
  then show ?case by (simp add: shift_ids_def)
next
  case (Cons sh rest)
  obtain lbl day start "end" req where sh: "sh = (lbl, day, start, end, req)"
    by (cases sh) auto
  show ?case
    by (simp add: sh Cons.IH) (auto simp: shift_ids_def shift_len_def)
qed

lemma shift_lengths_lookup:
  "shift_lengths shifts sid =
     (if sid \<in> set (shift_ids shifts) then Some (shift_len sid) else None)"
  by (simp add: shift_lengths_def shift_lengths_loop_lookup)

lemma hours_expr_total:
  "set sids \<subseteq> set (shift_ids shifts) \<Longrightarrow>
   hours_expr (shift_lengths shifts) s sids = Inr (load_expr s sids)"
  by (induction sids) (auto simp: shift_lengths_lookup load_expr_def)

lemma weekly_limit_total:
  "weekly_limit (shift_lengths shifts) shifts students =
     Inr (map (\<lambda>s. LinLe (load_expr s (shift_ids shifts)) (MAX_WEEKLY_HOURS * SCALE)) students)"
  by (induction students) (auto simp: hours_expr_total)

lemma total_hours_defs_total:
  "total_hours_defs (shift_lengths shifts) shifts students =
     Inr (map (\<lambda>s. VarEq (TotalHours s) (load_expr s (shift_ids shifts))) students)"
  by (induction students) (auto simp: hours_expr_total)

lemma build_model_total:
  "build_model students am shifts =
     Inr \<lparr> variables =
             decision_vars students shifts
             @ total_hours_vars students
             @ [(MaxH, 0, MAX_WEEKLY_HOURS * SCALE), (MinH, 0, MAX_WEEKLY_HOURS * SCALE)],
           constraints =
             coverage students shifts
             @ availability students shifts am
             @ map (\<lambda>s. LinLe (load_expr s (shift_ids shifts)) (MAX_WEEKLY_HOURS * SCALE)) students
             @ map (\<lambda>s. VarEq (TotalHours s) (load_expr s (shift_ids shifts))) students
             @ [MaxEquality MaxH (total_hours_values students),
                MinEquality MinH (total_hours_values students)],
           objective = Some [(1, MaxH), (- 1, MinH)] \<rparr>"
  by (simp add: build_model_def weekly_limit_total total_hours_defs_total
        ENFORCE_MAX_DAILY_HOURS_def ENFORCE_MAX_SHIFTS_PER_DAY_def)


lemma build_model_parts:
  assumes "build_model students am shifts = Inr m"
  shows "variables m = decision_vars students shifts @ total_hours_vars students
           @ [(MaxH, 0, MAX_WEEKLY_HOURS * SCALE), (MinH, 0, MAX_WEEKLY_HOURS * SCALE)]"
    and "constraints m = coverage students shifts @ availability students shifts am
           @ map (\<lambda>s. LinLe (load_expr s (shift_ids shifts)) (MAX_WEEKLY_HOURS * SCALE)) students
           @ map (\<lambda>s. VarEq (TotalHours s) (load_expr s (shift_ids shifts))) students
           @ [MaxEquality MaxH (total_hours_values students),
              MinEquality MinH (total_hours_values students)]"
    and "objective m = Some [(1, MaxH), (- 1, MinH)]"
  using assms unfolding build_model_total by auto

lemma eval_lin_load_expr:
  "eval_lin \<sigma> (load_expr s (shift_ids shifts)) = scaled_load \<sigma> shifts s"
  by (induction shifts) (auto simp: load_expr_def shift_ids_def scaled_load_def shift_len_def)

lemma eval_lin_ones:
  "eval_lin \<sigma> (map (\<lambda>s. (1, X sid s)) students) = (\<Sum>s \<leftarrow> students. \<sigma> (X sid s))"
  by (induction students) auto

lemma length_assigned:
  "\<forall>s \<in> set students. \<sigma> (X sid s) = 0 \<or> \<sigma> (X sid s) = 1 \<Longrightarrow>
   int (length (assigned \<sigma> students sid)) = (\<Sum>s \<leftarrow> students. \<sigma> (X sid s))"
  by (induction students) (auto simp: assigned_def)

lemma solution_constraint:
  "solution \<sigma> m \<Longrightarrow> c \<in> set (constraints m) \<Longrightarrow> satisfies \<sigma> c"
  by (auto simp: solution_def list_all_iff)

lemma solution_domain:
  "solution \<sigma> m \<Longrightarrow> (v, lo, hi) \<in> set (variables m) \<Longrightarrow> lo \<le> \<sigma> v \<and> \<sigma> v \<le> hi"
  by (auto simp: solution_def list_all_iff in_domain_def)

lemma decision_vars_mem:
  "s \<in> set students \<Longrightarrow> (lbl, day, start, end, req) \<in> set shifts \<Longrightarrow>
   (X (day, start, end) s, 0, 1) \<in> set (decision_vars students shifts)"
  unfolding decision_vars_def set_concat set_map
  by (rule UN_I[where a = "map (\<lambda>s. (X (day, start, end) s, 0, 1)) students"])
     (auto intro: rev_image_eqI)

lemma coverage_mem:
  "(lbl, day, start, end, req) \<in> set shifts \<Longrightarrow>
   LinEq (map (\<lambda>s. (1, X (day, start, end) s)) students) req \<in> set (coverage students shifts)"
  unfolding coverage_def set_map
  by (rule rev_image_eqI) auto

lemma solution_bool:
  assumes "build_model students am shifts = Inr m" and "solution \<sigma> m"
    and "s \<in> set students" and "(lbl, day, start, end, req) \<in> set shifts"
  shows "\<sigma> (X (day, start, end) s) = 0 \<or> \<sigma> (X (day, start, end) s) = 1"
proof -
  have "(X (day, start, end) s, 0, 1) \<in> set (variables m)"
    using decision_vars_mem[OF assms(3,4)] by (simp add: build_model_parts(1)[OF assms(1)])
  from solution_domain[OF assms(2) this] show ?thesis by auto
qed

lemma solution_coverage:
  assumes "build_model students am shifts = Inr m" and "solution \<sigma> m"
    and "(lbl, day, start, end, req) \<in> set shifts"
  shows "(\<Sum>s \<leftarrow> students. \<sigma> (X (day, start, end) s)) = req"
proof -
  have "LinEq (map (\<lambda>s. (1, X (day, start, end) s)) students) req \<in> set (constraints m)"
    using coverage_mem[OF assms(3)] by (simp add: build_model_parts(2)[OF assms(1)])
  from solution_constraint[OF assms(2) this] show ?thesis by (simp add: eval_lin_ones)
qed

lemma solution_weekly:
  assumes "build_model students am shifts = Inr m" and "solution \<sigma> m"
    and "s \<in> set students"
  shows "scaled_load \<sigma> shifts s \<le> MAX_WEEKLY_HOURS * SCALE"
proof -
  have "LinLe (load_expr s (shift_ids shifts)) (MAX_WEEKLY_HOURS * SCALE) \<in> set (constraints m)"
    using assms(3) by (simp add: build_model_parts(2)[OF assms(1)])
  from solution_constraint[OF assms(2) this] show ?thesis by (simp add: eval_lin_load_expr)
qed




lemma availability_mem:
  assumes "s \<in> set students" and "(lbl, day, start, end, req) \<in> set shifts"
    and "avail_get am s (day, start, end) = 0"
  shows "LinEq [(1, X (day, start, end) s)] 0 \<in> set (availability students shifts am)"
proof -
  let ?inner = "\<lambda>(lbl, day, start, end, req).
        concat (map (\<lambda>s. if avail_get am s (day, start, end) = 0
                          then [LinEq [(1, X (day, start, end) s)] 0] else []) students)"
  have "LinEq [(1, X (day, start, end) s)] 0 \<in> set (?inner (lbl, day, start, end, req))"
    using assms(1,3) by (auto intro!: bexI[where x = s])
  then have "\<exists>sh \<in> set shifts. LinEq [(1, X (day, start, end) s)] 0 \<in> set (?inner sh)"
    using assms(2) by blast
  then show ?thesis
    unfolding availability_def by simp
qed

lemma sum_list_swap:
  fixes g :: "'a \<Rightarrow> 'b \<Rightarrow> int"
  shows "(\<Sum>a \<leftarrow> as. (\<Sum>b \<leftarrow> bs. g a b) * w a) = (\<Sum>b \<leftarrow> bs. \<Sum>a \<leftarrow> as. g a b * w a)"
proof (induction as)
  case Nil
  then show ?case by simp
next
  case (Cons a as)
  have "(\<Sum>b \<leftarrow> bs. g a b * w a + (\<Sum>a \<leftarrow> as. g a b * w a))
          = (\<Sum>b \<leftarrow> bs. g a b * w a) + (\<Sum>b \<leftarrow> bs. \<Sum>a \<leftarrow> as. g a b * w a)"
    by (rule sum_list_addf)
  also have "(\<Sum>b \<leftarrow> bs. g a b * w a) = (\<Sum>b \<leftarrow> bs. g a b) * w a"
    by (rule sum_list_mult_const)
  finally show ?case
    using Cons.IH by simp
qed

lemma scaled_load_alt:
  "scaled_load \<sigma> shifts s = (\<Sum>sid \<leftarrow> shift_ids shifts. \<sigma> (X sid s) * shift_len sid)"
  by (induction shifts) (auto simp: scaled_load_def shift_ids_def shift_len_def)

lemma coverage_sum:
  assumes "list_all (satisfies \<sigma>) (coverage students shifts)"
    and "(lbl, day, start, end, req) \<in> set shifts"
  shows "(\<Sum>s \<leftarrow> students. \<sigma> (X (day, start, end) s)) = req"
proof -
  from assms(1) coverage_mem[OF assms(2), of students]
  have "satisfies \<sigma> (LinEq (map (\<lambda>s. (1, X (day, start, end) s)) students) req)"
    by (auto simp: list_all_iff)
  then show ?thesis by (simp add: eval_lin_ones)
qed

lemma weekly_sum:
  assumes "list_all (satisfies \<sigma>)
             (map (\<lambda>s. LinLe (load_expr s (shift_ids shifts)) (MAX_WEEKLY_HOURS * SCALE)) students)"
    and "s \<in> set students"
  shows "scaled_load \<sigma> shifts s \<le> MAX_WEEKLY_HOURS * SCALE"
  using assms by (simp add: list_all_iff eval_lin_load_expr)

lemma demand_as_loads:
  assumes "list_all (satisfies \<sigma>) (coverage students shifts)"
  shows "total_demand shifts = (\<Sum>s \<leftarrow> students. scaled_load \<sigma> shifts s)"
proof -
  have "\<forall>sh \<in> set shifts. (case sh of (lbl, day, start, end, req) \<Rightarrow>
           req * py_round ((end - start) * of_int SCALE)
             = (\<Sum>s \<leftarrow> students. \<sigma> (X (day, start, end) s)) * shift_len (day, start, end))"
    using coverage_sum[OF assms] by (auto simp: shift_len_def)
  then have eq: "map (\<lambda>(lbl, day, start, end, req). req * py_round ((end - start) * of_int SCALE)) shifts
       = map (\<lambda>(lbl, day, start, end, req).
                (\<Sum>s \<leftarrow> students. \<sigma> (X (day, start, end) s)) * shift_len (day, start, end)) shifts"
    by (intro map_cong) auto
  have "total_demand shifts
       = (\<Sum>(lbl, day, start, end, req) \<leftarrow> shifts.
            (\<Sum>s \<leftarrow> students. \<sigma> (X (day, start, end) s)) * shift_len (day, start, end))"
    unfolding total_demand_def eq ..
  also have "\<dots> = (\<Sum>sid \<leftarrow> shift_ids shifts. (\<Sum>s \<leftarrow> students. \<sigma> (X sid s)) * shift_len sid)"
    by (induction shifts) (auto simp: shift_ids_def)
  also have "\<dots> = (\<Sum>s \<leftarrow> students. scaled_load \<sigma> shifts s)"
    by (simp add: sum_list_swap scaled_load_alt)
  finally show ?thesis .
qed

lemma demand_within_caps:
  assumes "list_all (satisfies \<sigma>) (coverage students shifts)"
    and "list_all (satisfies \<sigma>)
           (map (\<lambda>s. LinLe (load_expr s (shift_ids shifts)) (MAX_WEEKLY_HOURS * SCALE)) students)"
  shows "total_demand shifts \<le> int (length students) * (MAX_WEEKLY_HOURS * SCALE)"
proof -
  have "total_demand shifts = (\<Sum>s \<leftarrow> students. scaled_load \<sigma> shifts s)"
    by (rule demand_as_loads[OF assms(1)])
  also have "\<dots> \<le> (\<Sum>s \<leftarrow> students. MAX_WEEKLY_HOURS * SCALE)"
    by (rule sum_list_mono) (rule weekly_sum[OF assms(2)])
  also have "\<dots> = int (length students) * (MAX_WEEKLY_HOURS * SCALE)"
    by (simp add: sum_list_triv)
  finally show ?thesis .
qed

lemma solution_parts:
  assumes "build_model students am shifts = Inr m" and "solution \<sigma> m"
  shows "list_all (satisfies \<sigma>) (coverage students shifts)"
    and "list_all (satisfies \<sigma>)
           (map (\<lambda>s. LinLe (load_expr s (shift_ids shifts)) (MAX_WEEKLY_HOURS * SCALE)) students)"
  using assms(2) by (simp_all add: solution_def build_model_parts(2)[OF assms(1)])

lemma set_dict_keys: "set (dict_keys ks seen) = set ks - set seen"
  by (induction ks seen rule: dict_keys.induct) auto

lemma set_total_hours_values:
  "set (total_hours_values students) = TotalHours ` set students"
  by (simp add: total_hours_values_def set_dict_keys)

lemma max_of_Some:
  assumes "max_of ns = Some t"
  shows "ns \<noteq> [] \<and> t = Max (set ns)"
proof (cases ns)
  case Nil
  with assms show ?thesis by simp
next
  case (Cons a list)
  with assms Max.set_eq_fold[of a list] show ?thesis by simp
qed

lemma min_of_Some:
  assumes "min_of ns = Some t"
  shows "ns \<noteq> [] \<and> t = Min (set ns)"
proof (cases ns)
  case Nil
  with assms show ?thesis by simp
next
  case (Cons a list)
  with assms Min.set_eq_fold[of a list] show ?thesis by simp
qed

lemma decision_vars_domain:
  assumes "\<And>sid s. 0 \<le> \<sigma> (X sid s) \<and> \<sigma> (X sid s) \<le> 1"
  shows "list_all (in_domain \<sigma>) (decision_vars students shifts)"
  using assms by (auto simp: decision_vars_def list_all_iff in_domain_def)

section \<open>The table loader\<close>

lemma py_any_iff: "py_any bs \<longleftrightarrow> (\<exists>b \<in> set bs. b)"
  by (induction bs) auto

lemma is_available_iff:
  "is_available parsed start end \<longleftrightarrow> (\<exists>(a, b) \<in> set parsed. a \<le> start \<and> end \<le> b)"
  by (auto simp: is_available_def py_any_iff)

lemma shifts_loop_Cons:
  "shifts_loop lit df row student ((lbl, d, start, end, req) # rest) am =
     (case sid_entry lit df row (d, start, end) of
        Inl e \<Rightarrow> Inl e
      | Inr v \<Rightarrow>
          (case am student of
             None \<Rightarrow> Inl KeyError
           | Some entries \<Rightarrow>
               shifts_loop lit df row student rest
                 (am(student \<mapsto> entries((d, start, end) \<mapsto> v)))))"
  by (simp add: sid_entry_def split: option.splits sum.splits)

lemma shifts_loop_result:
  assumes "shifts_loop lit df row student shs am = Inr am'"
  shows "(\<forall>t. t \<noteq> student \<longrightarrow> am' t = am t)
       \<and> (shs \<noteq> [] \<longrightarrow> am student \<noteq> None)
       \<and> (\<forall>e. am student = Some e \<longrightarrow>
            (\<exists>e'. am' student = Some e'
               \<and> (\<forall>sid. sid \<notin> set (shift_ids shs) \<longrightarrow> e' sid = e sid)
               \<and> (\<forall>sid \<in> set (shift_ids shs).
                     \<exists>v. sid_entry lit df row sid = Inr v \<and> e' sid = Some v)))"
  using assms
proof (induction shs arbitrary: am)
  case Nil
  then show ?case by (simp add: shift_ids_def)
next
  case (Cons sh rest)
  obtain lbl d start "end" req where sh: "sh = (lbl, d, start, end, req)"
    by (cases sh) auto
  from Cons.prems obtain v e where
    v: "sid_entry lit df row (d, start, end) = Inr v" and
    e: "am student = Some e" and
    rest: "shifts_loop lit df row student rest (am(student \<mapsto> e((d, start, end) \<mapsto> v))) = Inr am'"
    unfolding sh shifts_loop_Cons by (auto split: sum.splits option.splits)
  note IH = Cons.IH[OF rest]
  from IH obtain e' where
    e': "am' student = Some e'" and
    out: "\<forall>sid. sid \<notin> set (shift_ids rest) \<longrightarrow> e' sid = (e((d, start, end) \<mapsto> v)) sid" and
    inn: "\<forall>sid \<in> set (shift_ids rest). \<exists>v. sid_entry lit df row sid = Inr v \<and> e' sid = Some v"
    by auto
  have ids: "shift_ids (sh # rest) = (d, start, end) # shift_ids rest"
    by (simp add: shift_ids_def sh)
  have "\<forall>t. t \<noteq> student \<longrightarrow> am' t = am t"
    using IH by auto
  moreover have "\<forall>sid. sid \<notin> set (shift_ids (sh # rest)) \<longrightarrow> e' sid = e sid"
    using out by (simp add: ids)
  moreover have "\<forall>sid \<in> set (shift_ids (sh # rest)).
                   \<exists>v. sid_entry lit df row sid = Inr v \<and> e' sid = Some v"
  proof
    fix sid assume "sid \<in> set (shift_ids (sh # rest))"
    then consider "sid \<in> set (shift_ids rest)" | "sid = (d, start, end)" "sid \<notin> set (shift_ids rest)"
      by (auto simp: ids)
    then show "\<exists>v. sid_entry lit df row sid = Inr v \<and> e' sid = Some v"
    proof cases
      case 1
      with inn show ?thesis by blast
    next
      case 2
      with out v show ?thesis by simp
    qed
  qed
  ultimately show ?case
    using e e' by simp
qed


lemma rows_loop_Cons:
  "rows_loop lit df (row # rest) am =
     (case shifts_loop lit df row (row_student row) SHIFTS am of
        Inl e \<Rightarrow> Inl e
      | Inr am' \<Rightarrow> rows_loop lit df rest am')"
  by (simp add: row_student_def)

lemma rows_loop_untouched:
  assumes "rows_loop lit df rs am = Inr am'" and "\<forall>r \<in> set rs. row_student r \<noteq> t"
  shows "am' t = am t"
  using assms
proof (induction rs arbitrary: am)
  case Nil
  then show ?case by simp
next
  case (Cons r rest)
  from Cons.prems(1) obtain am1 where
    one: "shifts_loop lit df r (row_student r) SHIFTS am = Inr am1" and
    more: "rows_loop lit df rest am1 = Inr am'"
    unfolding rows_loop_Cons by (auto split: sum.splits)
  have "am1 t = am t"
    using shifts_loop_result[OF one] Cons.prems(2) by auto
  moreover have "am' t = am1 t"
    using Cons.IH[OF more] Cons.prems(2) by simp
  ultimately show ?case by simp
qed

lemma rows_loop_last:
  assumes "rows_loop lit df (pre @ r # post) am = Inr am'"
    and "\<forall>r' \<in> set post. row_student r' \<noteq> row_student r"
  shows "\<exists>e'. am' (row_student r) = Some e'
           \<and> (\<forall>sid \<in> set (shift_ids SHIFTS).
                 \<exists>v. sid_entry lit df r sid = Inr v \<and> e' sid = Some v)"
  using assms(1)
proof (induction pre arbitrary: am)
  case Nil
  then obtain am1 where
    one: "shifts_loop lit df r (row_student r) SHIFTS am = Inr am1" and
    more: "rows_loop lit df post am1 = Inr am'"
    unfolding append_Nil rows_loop_Cons by (auto split: sum.splits)
  have "SHIFTS \<noteq> []"
    by (simp add: SHIFTS_def)
  with shifts_loop_result[OF one] obtain e where "am (row_student r) = Some e"
    by auto
  with shifts_loop_result[OF one] obtain e' where
    "am1 (row_student r) = Some e'"
    "\<forall>sid \<in> set (shift_ids SHIFTS). \<exists>v. sid_entry lit df r sid = Inr v \<and> e' sid = Some v"
    by blast
  moreover have "am' (row_student r) = am1 (row_student r)"
    using rows_loop_untouched[OF more assms(2)] .
  ultimately show ?case by simp
next
  case (Cons p pre)
  then obtain am1 where
    more: "rows_loop lit df (pre @ r # post) am1 = Inr am'"
    unfolding append_Cons rows_loop_Cons by (auto split: sum.splits)
  from Cons.IH[OF more] show ?case .
qed

lemma shifts_loop_succeeds:
  assumes "am student = Some e"
    and "\<forall>sid \<in> set (shift_ids shs). \<exists>v. sid_entry lit df row sid = Inr v"
  shows "\<exists>am'. shifts_loop lit df row student shs am = Inr am' \<and> dom am' = dom am"
  using assms
proof (induction shs arbitrary: am e)
  case Nil
  then show ?case by simp
next
  case (Cons sh rest)
  obtain lbl d start "end" req where sh: "sh = (lbl, d, start, end, req)"
    by (cases sh) auto
  have ids: "shift_ids (sh # rest) = (d, start, end) # shift_ids rest"
    by (simp add: shift_ids_def sh)
  from Cons.prems(2) obtain v where v: "sid_entry lit df row (d, start, end) = Inr v"
    by (auto simp: ids)
  let ?am1 = "am(student \<mapsto> e((d, start, end) \<mapsto> v))"
  have "?am1 student = Some (e((d, start, end) \<mapsto> v))"
    by simp
  moreover have "\<forall>sid \<in> set (shift_ids rest). \<exists>v. sid_entry lit df row sid = Inr v"
    using Cons.prems(2) by (simp add: ids)
  ultimately obtain am' where
    "shifts_loop lit df row student rest ?am1 = Inr am'" "dom am' = dom ?am1"
    using Cons.IH by blast
  moreover have "dom ?am1 = dom am"
    using Cons.prems(1) by auto
  ultimately show ?case
    unfolding sh shifts_loop_Cons by (simp add: v Cons.prems(1))
qed

lemma rows_loop_succeeds:
  assumes "\<forall>r \<in> set rs. row_student r \<in> dom am
             \<and> (\<forall>sid \<in> set (shift_ids SHIFTS). \<exists>v. sid_entry lit df r sid = Inr v)"
  shows "\<exists>am'. rows_loop lit df rs am = Inr am'"
  using assms
proof (induction rs arbitrary: am)
  case Nil
  then show ?case by simp
next
  case (Cons r rest)
  from Cons.prems obtain e where e: "am (row_student r) = Some e"
    by auto
  from Cons.prems have "\<forall>sid \<in> set (shift_ids SHIFTS). \<exists>v. sid_entry lit df r sid = Inr v"
    by simp
  from shifts_loop_succeeds[of am "row_student r" e SHIFTS lit df r, OF e this] obtain am1 where
    one: "shifts_loop lit df r (row_student r) SHIFTS am = Inr am1" and dom: "dom am1 = dom am"
    by blast
  have "\<forall>r \<in> set rest. row_student r \<in> dom am1
          \<and> (\<forall>sid \<in> set (shift_ids SHIFTS). \<exists>v. sid_entry lit df r sid = Inr v)"
    using Cons.prems by (simp add: dom)
  from Cons.IH[OF this] obtain am' where "rows_loop lit df rest am1 = Inr am'"
    by blast
  then show ?case
    unfolding rows_loop_Cons by (simp add: one)
qed

lemma student_names_mem:
  "s \<in> set (student_names df) \<longleftrightarrow>
     (\<exists>r \<in> set (rows df). r name_col \<noteq> NaN \<and> title (strip (column_str (r name_col))) = s)"
  by (auto simp: student_names_def)

lemma string_names_keys:
  assumes "\<forall>row \<in> set (rows df). \<exists>n. row name_col = Str n"
  shows "\<forall>row \<in> set (rows df). row_student row \<in> set (student_names df)"
proof
  fix row assume row: "row \<in> set (rows df)"
  with assms obtain n where "row name_col = Str n"
    by blast
  then have "row name_col \<noteq> NaN"
    and "title (strip (column_str (row name_col))) = row_student row"
    by (simp_all add: row_student_def column_str_def row_str_def)
  with row show "row_student row \<in> set (student_names df)"
    unfolding student_names_mem by blast
qed

lemma load_input_Inr:
  assumes "load_input_from_excel lit df = Inr (InputData students am shifts)"
  shows "name_col \<in> set (columns df)" and "students = student_names df" and "shifts = SHIFTS"
    and "rows_loop lit df (rows df) (\<lambda>s. if s \<in> set (student_names df) then Some Map.empty else None) = Inr am"
  using assms by (auto simp: load_input_from_excel_def Let_def split: if_splits sum.splits)

lemma SHIFTS_days:
  "(d, start, end) \<in> set (shift_ids SHIFTS) \<Longrightarrow> \<exists>col. DAY_ABBR_TO_COL d = Some col"
  by (auto simp: shift_ids_def SHIFTS_def DAY_ABBR_TO_COL_def)

lemma shift_ids_mem:
  "(lbl, d, start, end, req) \<in> set shs \<Longrightarrow> (d, start, end) \<in> set (shift_ids shs)"
  by (force simp: shift_ids_def)

lemma rows_loop_dom:
  assumes "rows_loop lit df rs am = Inr am'"
  shows "dom am' = dom am"
  using assms
proof (induction rs arbitrary: am)
  case Nil
  then show ?case by simp
next
  case (Cons r rest)
  from Cons.prems obtain am1 where
    one: "shifts_loop lit df r (row_student r) SHIFTS am = Inr am1" and
    more: "rows_loop lit df rest am1 = Inr am'"
    unfolding rows_loop_Cons by (auto split: sum.splits)
  have "dom am1 = dom am"
  proof (rule set_eqI)
    fix t
    show "t \<in> dom am1 \<longleftrightarrow> t \<in> dom am"
    proof (cases "t = row_student r")
      case True
      have "SHIFTS \<noteq> []" by (simp add: SHIFTS_def)
      with shifts_loop_result[OF one] True show ?thesis
        by (auto simp: dom_def)
    next
      case False
      with shifts_loop_result[OF one] show ?thesis
        by (auto simp: dom_def)
    qed
  qed
  with Cons.IH[OF more] show ?case by simp
qed

lemma load_input_succeeds:
  assumes "name_col \<in> set (columns df)"
    and "\<forall>row \<in> set (rows df). row_student row \<in> set (student_names df)"
    and "\<forall>row \<in> set (rows df). \<forall>sid \<in> set (shift_ids SHIFTS). \<exists>v. sid_entry lit df row sid = Inr v"
  shows "\<exists>am. load_input_from_excel lit df = Inr (InputData (student_names df) am SHIFTS)"
proof -
  let ?am0 = "\<lambda>s. if s \<in> set (student_names df) then Some Map.empty else (None :: (ShiftId \<rightharpoonup> int) option)"
  have "\<forall>r \<in> set (rows df). row_student r \<in> dom ?am0
          \<and> (\<forall>sid \<in> set (shift_ids SHIFTS). \<exists>v. sid_entry lit df r sid = Inr v)"
    using assms(2,3) by (auto simp: dom_def)
  from rows_loop_succeeds[OF this] obtain am where
    "rows_loop lit df (rows df) ?am0 = Inr am"
    by blast
  then show ?thesis
    using assms(1) by (simp add: load_input_from_excel_def)
qed

lemma sid_entry_Inr:
  assumes "DAY_ABBR_TO_COL d = Some col"
    and "parse_ranges lit (row_get df row col) = Inr parsed"
  shows "sid_entry lit df row (d, start, end) = Inr (if is_available parsed start end then 1 else 0)"
  using assms by (simp add: sid_entry_def)

lemma parse_ranges_default:
  assumes "lit [] = None" and "col \<notin> set (columns df)"
  shows "parse_ranges lit (row_get df row col) = Inr []"
  using assms by (simp add: parse_ranges_def row_get_def)

lemma loaded_entry:
  assumes "load_input_from_excel lit df = Inr (InputData students am shifts)"
    and "rows df = pre @ row # post"
    and "\<forall>r \<in> set post. row_student r \<noteq> row_student row"
    and "(lbl, d, start, end, req) \<in> set SHIFTS"
  shows "\<exists>e v. am (row_student row) = Some e \<and> e (d, start, end) = Some v
           \<and> sid_entry lit df row (d, start, end) = Inr v"
proof -
  from load_input_Inr(4)[OF assms(1)] have
    "rows_loop lit df (pre @ row # post)
       (\<lambda>s. if s \<in> set (student_names df) then Some Map.empty else None) = Inr am"
    by (simp add: assms(2))
  from rows_loop_last[OF this assms(3)] shift_ids_mem[OF assms(4)]
  show ?thesis by blast
qed

lemma loaded_row_entry:
  assumes "load_input_from_excel lit df = Inr (InputData students am shifts)"
    and "row \<in> set (rows df)"
    and "(lbl, d, start, end, req) \<in> set SHIFTS"
  shows "\<exists>r \<in> set (rows df). row_student r = row_student row
           \<and> (\<exists>e v. am (row_student row) = Some e \<and> e (d, start, end) = Some v
                 \<and> sid_entry lit df r (d, start, end) = Inr v)"
proof -
  from assms(2) have "\<exists>r \<in> set (rows df). row_student r = row_student row"
    by blast
  from split_list_last_prop[OF this] obtain pre r post where
    split: "rows df = pre @ r # post" and name: "row_student r = row_student row" and
    last: "\<forall>r' \<in> set post. row_student r' \<noteq> row_student row"
    by blast
  from last name have "\<forall>r' \<in> set post. row_student r' \<noteq> row_student r"
    by simp
  from loaded_entry[OF assms(1) split this assms(3)] obtain e v where
    "am (row_student r) = Some e" "e (d, start, end) = Some v"
    "sid_entry lit df r (d, start, end) = Inr v"
    by blast
  moreover have "r \<in> set (rows df)"
    by (simp add: split)
  ultimately show ?thesis
    using name by auto
qed

lemma loaded_no_row:
  assumes "load_input_from_excel lit df = Inr (InputData students am shifts)"
    and "s \<in> set students"
    and "\<forall>r \<in> set (rows df). row_student r \<noteq> s"
  shows "am s = Some Map.empty"
proof -
  from rows_loop_untouched[OF load_input_Inr(4)[OF assms(1)] assms(3)]
  show ?thesis
    using assms(2) by (simp add: load_input_Inr(2)[OF assms(1)])
qed

lemma parse_items_filter:
  "parse_items (filter has_separator items) = parse_items items"
  by (induction items rule: parse_items.induct) (auto split: sum.splits)

lemma parse_items_no_separator:
  "list_all (\<lambda>v. \<not> has_separator v) items \<Longrightarrow> parse_items items = Inr []"
  by (induction items rule: parse_items.induct) auto

lemma SHIFTS_within_all:
  "list_all (\<lambda>(d, start, end). 7 \<le> start \<and> end \<le> 19
               \<and> (case DAY_ABBR_TO_COL d of
                     None \<Rightarrow> False
                   | Some col \<Rightarrow> col \<in> set [''MONDAY'', ''TUESDAY'', ''WEDNESDAY'', ''THURSDAY'',
                                              ''FRIDAY'', ''SATURDAY'', ''SUNDAY'']))
     (shift_ids SHIFTS)"
  by (simp add: shift_ids_def SHIFTS_def DAY_ABBR_TO_COL_def)

lemma SHIFTS_within:
  assumes "(d, start, end) \<in> set (shift_ids SHIFTS)"
  shows "7 \<le> start \<and> end \<le> 19
     \<and> (\<exists>col \<in> set [''MONDAY'', ''TUESDAY'', ''WEDNESDAY'', ''THURSDAY'', ''FRIDAY'',
                        ''SATURDAY'', ''SUNDAY'']. DAY_ABBR_TO_COL d = Some col)"
proof -
  from SHIFTS_within_all assms
  have "7 \<le> start \<and> end \<le> 19
        \<and> (case DAY_ABBR_TO_COL d of
              None \<Rightarrow> False
            | Some col \<Rightarrow> col \<in> set [''MONDAY'', ''TUESDAY'', ''WEDNESDAY'', ''THURSDAY'',
                                       ''FRIDAY'', ''SATURDAY'', ''SUNDAY''])"
    unfolding list_all_iff by blast
  then show ?thesis
    by (cases "DAY_ABBR_TO_COL d") simp_all
qed

lemma availability_all_free:
  assumes "\<forall>s \<in> set students. \<forall>sid \<in> set (shift_ids shifts). avail_get am s sid \<noteq> 0"
  shows "availability students shifts am = []"
proof -
  have "concat (map (\<lambda>s. if avail_get am s (day, start, end) = 0
                          then [LinEq [(1, X (day, start, end) s)] 0] else []) students) = []"
    if "(lbl, day, start, end, req) \<in> set shifts" for lbl day start "end" req
    using assms shift_ids_mem[OF that] by auto
  then show ?thesis
    by (auto simp: availability_def)
qed

section \<open>The small instance\<close>

lemma example_solution:
  "\<exists>m. build_model example_students example_matrix example_shifts = Inr m
       \<and> solution example_valuation m"
  unfolding build_model_total
  by (simp add: solution_def in_domain_def decision_vars_def total_hours_vars_def coverage_def
        availability_def avail_get_def load_expr_def shift_ids_def shift_len_def py_round_def
        total_hours_values_def example_students_def example_shifts_def example_matrix_def
        example_valuation_def MAX_WEEKLY_HOURS_def SCALE_def)


lemma example_shift: "(''S1'', ''Mon'', 9, 12, 1) \<in> set example_shifts"
  by (simp add: example_shifts_def)

lemma total_demand_SHIFTS: "total_demand SHIFTS = 905"
  by (simp add: total_demand_def SHIFTS_def py_round_def SCALE_def)

text \<open>The example table loads, and its Monday cell parses to one interval.\<close>

lemmas string_ops =
  title_def strip_def py_isspace_def to_upper_def to_lower_def is_cased_def
  ascii_lowercase_def ascii_uppercase_def

lemmas time_ops =
  hhmm_to_float_def strptime_HMS_def time_field_def digit_val_def split_dash_def
  strip_def py_isspace_def

lemma example_literal_eval_empty: "example_literal_eval [] = None"
  by (simp add: example_literal_eval_def)

lemma example_monday:
  "parse_ranges example_literal_eval (row_get example_table example_row ''MONDAY'') = Inr [(7, 12)]"
  by (simp add: parse_ranges_def row_get_def example_table_def example_row_def
        example_literal_eval_def time_ops)

lemma example_row_student: "row_student example_row = ''Ann Lee''"
  by (simp add: row_student_def example_row_def name_col_def row_str_def string_ops)

lemma example_student_names: "student_names example_table = [''Ann Lee'']"
  by (simp add: student_names_def example_table_def example_row_def name_col_def
        column_str_def string_ops)

lemma example_cells:
  assumes "DAY_ABBR_TO_COL d = Some c" and "c \<in> set (columns example_table)"
  shows "\<exists>p. parse_ranges example_literal_eval (example_row c) = Inr p"
proof -
  from assms(1) have "c \<noteq> ''STUDENT NAME''"
    by (auto simp: DAY_ABBR_TO_COL_def split: if_splits)
  with assms(2) have "c = ''MONDAY''"
    by (simp add: example_table_def)
  with example_monday show ?thesis
    by (simp add: row_get_def example_table_def)
qed

lemma example_entries:
  assumes "sid \<in> set (shift_ids SHIFTS)"
  shows "\<exists>v. sid_entry example_literal_eval example_table example_row sid = Inr v"
proof -
  obtain d start "end" where sid: "sid = (d, start, end)"
    by (cases sid) auto
  from SHIFTS_days assms obtain col where col: "DAY_ABBR_TO_COL d = Some col"
    unfolding sid by blast
  have "\<exists>p. parse_ranges example_literal_eval (row_get example_table example_row col) = Inr p"
  proof (cases "col \<in> set (columns example_table)")
    case True
    with example_cells[OF col] show ?thesis by (simp add: row_get_def)
  next
    case False
    with parse_ranges_default[of example_literal_eval col example_table example_row]
      example_literal_eval_empty
    show ?thesis by blast
  qed
  then show ?thesis
    unfolding sid using sid_entry_Inr[OF col] by blast
qed

lemma example_load:
  "\<exists>am. load_input_from_excel example_literal_eval example_table
          = Inr (InputData [''Ann Lee''] am SHIFTS)"
proof -
  have "name_col \<in> set (columns example_table)"
    by (simp add: name_col_def example_table_def)
  moreover have "\<forall>row \<in> set (rows example_table). row_student row \<in> set (student_names example_table)"
    by (rule string_names_keys) (simp add: name_col_def example_table_def example_row_def)
  moreover have "\<forall>row \<in> set (rows example_table). \<forall>sid \<in> set (shift_ids SHIFTS).
                   \<exists>v. sid_entry example_literal_eval example_table row sid = Inr v"
    using example_entries by (simp add: example_table_def)
  ultimately show ?thesis
    using load_input_succeeds[of example_table example_literal_eval]
    by (simp add: example_student_names)
qed

text \<open>
  A numeric name is looked up under the text of its row, which is not the text the
  student list holds: the load ends with \<open>KeyError\<close>.
\<close>

lemma numeric_name_key_error:
  "student_names numeric_table = [''1'']
   \<and> load_input_from_excel example_literal_eval numeric_table = Inl KeyError"
proof -
  have names: "student_names numeric_table = [''1'']"
    by (simp add: student_names_def numeric_table_def numeric_row_def name_col_def
          column_str_def string_ops)
  have key: "row_student numeric_row = ''1.0''"
    by (simp add: row_student_def numeric_row_def name_col_def row_str_def string_ops)
  have "sid_entry example_literal_eval numeric_table numeric_row (''Mon'', 29 / 4, 9) = Inr 0"
    by (simp add: sid_entry_def DAY_ABBR_TO_COL_def row_get_def numeric_table_def numeric_row_def
          parse_ranges_def is_available_def)
  then have "shifts_loop example_literal_eval numeric_table numeric_row ''1.0'' SHIFTS
               (\<lambda>s. if s \<in> set [''1''] then Some Map.empty else None) = Inl KeyError"
    unfolding SHIFTS_def shifts_loop_Cons by simp
  then have "rows_loop example_literal_eval numeric_table [numeric_row]
               (\<lambda>s. if s \<in> set [''1''] then Some Map.empty else None) = Inl KeyError"
    unfolding rows_loop_Cons key by simp
  then have "load_input_from_excel example_literal_eval numeric_table = Inl KeyError"
    unfolding load_input_from_excel_def names
    by (simp add: numeric_table_def name_col_def)
  with names show ?thesis by simp
qed

section \<open>Counting the entries of the student list\<close>

text \<open>
  The coverage constraint sums over the student list, so what it fixes is the number of
  entries of that list with the value 1.  In every solution that number is the required
  headcount, for every shift; when no name occurs twice in the list it is the number
  of people.
\<close>

theorem coverage_exact:
  assumes "build_model students am shifts = Inr m"
    and "solution \<sigma> m"
    and "(lbl, day, start, end, req) \<in> set shifts"
  shows "int (length (assigned \<sigma> students (day, start, end))) = req
       \<and> (distinct students \<longrightarrow>
            int (card {s \<in> set students. \<sigma> (X (day, start, end) s) = 1}) = req)"
proof -
  have "\<forall>s \<in> set students. \<sigma> (X (day, start, end) s) = 0 \<or> \<sigma> (X (day, start, end) s) = 1"
    using solution_bool[OF assms(1,2) _ assms(3)] by blast
  then have "int (length (assigned \<sigma> students (day, start, end)))
               = (\<Sum>s \<leftarrow> students. \<sigma> (X (day, start, end) s))"
    by (rule length_assigned)
  then have len: "int (length (assigned \<sigma> students (day, start, end))) = req"
    by (simp add: solution_coverage[OF assms])
  have "card {s \<in> set students. \<sigma> (X (day, start, end) s) = 1}
          = length (assigned \<sigma> students (day, start, end))"
    if "distinct students"
  proof -
    from that have "distinct (assigned \<sigma> students (day, start, end))"
      by (simp add: assigned_def)
    from distinct_card[OF this] show ?thesis
      by (simp add: assigned_def)
  qed
  with len show ?thesis by simp
qed

theorem coverage_exact_witness:
  "int (length (assigned example_valuation example_students (''Mon'', 9, 12))) = 1
   \<and> int (card {s \<in> set example_students. example_valuation (X (''Mon'', 9, 12) s) = 1}) = 1"
proof -
  from example_solution obtain m where
    "build_model example_students example_matrix example_shifts = Inr m"
    "solution example_valuation m"
    by blast
  from coverage_exact[OF this example_shift] show ?thesis
    by (simp add: example_students_def)
qed

text \<open>
  In the same way the weekly limits bound the work the list can take by the number of
  its entries times the cap: when the work the catalog requires exceeds that, no
  valuation satisfies both the coverage constraints and the weekly limits, the model
  has no solution, and whatever a sound solver answers, the script reports that no
  feasible schedule was found.
\<close>

theorem overload_infeasible:
  assumes "build_model students am shifts = Inr m"
    and "weekly_limit (shift_lengths shifts) shifts students = Inr weekly"
    and "int (length students) * (MAX_WEEKLY_HOURS * SCALE) < total_demand shifts"
  shows "set (coverage students shifts) \<union> set weekly \<subseteq> set (constraints m)
       \<and> (\<nexists>\<sigma>. list_all (satisfies \<sigma>) (coverage students shifts) \<and> list_all (satisfies \<sigma>) weekly)
       \<and> (\<nexists>\<sigma>. solution \<sigma> m)
       \<and> (\<forall>st \<sigma>. sound_answer m st \<sigma> \<longrightarrow>
             report_of st \<sigma> students shifts = NoFeasibleSchedule st)"
proof -
  from assms(2) have weekly:
    "weekly = map (\<lambda>s. LinLe (load_expr s (shift_ids shifts)) (MAX_WEEKLY_HOURS * SCALE)) students"
    by (simp add: weekly_limit_total)
  have sub: "set (coverage students shifts) \<union> set weekly \<subseteq> set (constraints m)"
    by (auto simp: weekly build_model_parts(2)[OF assms(1)])
  have two: "\<not> (list_all (satisfies \<sigma>) (coverage students shifts) \<and> list_all (satisfies \<sigma>) weekly)"
    for \<sigma>
    using demand_within_caps[of \<sigma> students shifts] assms(3) by (auto simp: weekly)
  have none: "\<not> solution \<sigma> m" for \<sigma>
    using two[of \<sigma>] solution_parts[OF assms(1)] by (auto simp: weekly)
  have "report_of st \<sigma> students shifts = NoFeasibleSchedule st" if "sound_answer m st \<sigma>" for st \<sigma>
  proof -
    from that none[of \<sigma>] have "\<not> (st = OPTIMAL \<or> st = FEASIBLE)"
      by (auto simp: sound_answer_def)
    then show ?thesis
      by (simp add: report_of_def)
  qed
  with sub two none show ?thesis by blast
qed

theorem overload_infeasible_witness:
  "\<exists>m weekly. build_model example_students example_matrix SHIFTS = Inr m
     \<and> weekly_limit (shift_lengths SHIFTS) SHIFTS example_students = Inr weekly
     \<and> total_demand SHIFTS = 905
     \<and> int (length example_students) * (MAX_WEEKLY_HOURS * SCALE) = 160
     \<and> (\<nexists>\<sigma>. list_all (satisfies \<sigma>) (coverage example_students SHIFTS)
               \<and> list_all (satisfies \<sigma>) weekly)
     \<and> (\<nexists>\<sigma>. solution \<sigma> m)
     \<and> sound_answer m INFEASIBLE example_valuation
     \<and> report_of INFEASIBLE example_valuation example_students SHIFTS
         = NoFeasibleSchedule INFEASIBLE"
proof -
  obtain m where m: "build_model example_students example_matrix SHIFTS = Inr m"
    by (simp add: build_model_total)
  obtain weekly where w: "weekly_limit (shift_lengths SHIFTS) SHIFTS example_students = Inr weekly"
    by (simp add: weekly_limit_total)
  have cap: "int (length example_students) * (MAX_WEEKLY_HOURS * SCALE) = 160"
    by (simp add: example_students_def MAX_WEEKLY_HOURS_def SCALE_def)
  then have "int (length example_students) * (MAX_WEEKLY_HOURS * SCALE) < total_demand SHIFTS"
    by (simp add: total_demand_SHIFTS)
  from overload_infeasible[OF m w this] m w cap show ?thesis
    by (auto simp: sound_answer_def total_demand_SHIFTS)
qed

section \<open>The full week with a repeated name\<close>

text \<open>
  The roster is a solution of the model that the script builds for the table: the sums
  below are the coverage of every shift and the load of every person.
\<close>

lemma crowd_assignment_lookup:
  "map_of crowd_assignment (''Mon'', 29 / 4, 9) = Some [''Ann'', ''Bob'', ''Cal'']"
  "map_of crowd_assignment (''Mon'', 9, 12) = Some [''Ida'', ''Jon'', ''Dana'']"
  "map_of crowd_assignment (''Mon'', 12, 15) = Some [''Ida'', ''Jon'', ''Dana'']"
  "map_of crowd_assignment (''Mon'', 15, 17) = Some [''Ann'', ''Bob'', ''Cal'', ''Hal'']"
  "map_of crowd_assignment (''Mon'', 17, 19) = Some [''Ann'', ''Bob'', ''Cal'']"
  "map_of crowd_assignment (''Tue'', 29 / 4, 9) = Some [''Eve'', ''Fay'', ''Gus'']"
  "map_of crowd_assignment (''Tue'', 9, 12) = Some [''Eve'', ''Fay'', ''Dana'']"
  "map_of crowd_assignment (''Tue'', 12, 15) = Some [''Gus'', ''Ida'', ''Dana'']"
  "map_of crowd_assignment (''Tue'', 15, 17) = Some [''Eve'', ''Fay'', ''Gus'', ''Jon'']"
  "map_of crowd_assignment (''Tue'', 17, 19) = Some [''Ann'', ''Bob'', ''Cal'']"
  "map_of crowd_assignment (''Wed'', 29 / 4, 9) = Some [''Ann'', ''Bob'', ''Cal'']"
  "map_of crowd_assignment (''Wed'', 9, 12) = Some [''Ann'', ''Bob'', ''Cal'', ''Dee'']"
  "map_of crowd_assignment (''Wed'', 12, 15) = Some [''Ann'', ''Bob'', ''Cal'', ''Dee'']"
  "map_of crowd_assignment (''Wed'', 15, 17) = Some [''Ann'', ''Bob'', ''Cal'', ''Dee'']"
  "map_of crowd_assignment (''Wed'', 17, 19) = Some [''Ann'', ''Bob'', ''Cal'']"
  "map_of crowd_assignment (''Thu'', 29 / 4, 9) = Some [''Eve'', ''Fay'', ''Gus'']"
  "map_of crowd_assignment (''Thu'', 9, 12) = Some [''Eve'', ''Fay'', ''Gus'', ''Hal'']"
  "map_of crowd_assignment (''Thu'', 12, 15) = Some [''Eve'', ''Fay'', ''Gus'', ''Hal'']"
  "map_of crowd_assignment (''Thu'', 15, 17) = Some [''Eve'', ''Fay'', ''Gus'', ''Hal'']"
  "map_of crowd_assignment (''Thu'', 17, 19) = Some [''Eve'', ''Fay'', ''Gus'']"
  "map_of crowd_assignment (''Fri'', 29 / 4, 9) = Some [''Dee'', ''Ida'', ''Jon'']"
  "map_of crowd_assignment (''Fri'', 9, 12) = Some [''Dee'', ''Hal'', ''Ida'', ''Jon'']"
  "map_of crowd_assignment (''Fri'', 12, 15) = Some [''Dee'', ''Hal'', ''Ida'', ''Jon'']"
  "map_of crowd_assignment (''Fri'', 15, 17) = Some [''Dee'', ''Hal'', ''Ida'', ''Jon'']"
  "map_of crowd_assignment (''Sat'', 10, 14) = Some [''Dana'']"
  "map_of crowd_assignment (''Sun'', 10, 14) = Some [''Dana'']"
  by (simp_all add: crowd_assignment_def)

lemma crowd_X:
  "crowd_roster (X sid s) =
     (case map_of crowd_assignment sid of
        None \<Rightarrow> 0
      | Some names \<Rightarrow> if s \<in> set names then 1 else 0)"
  by (simp add: crowd_roster_def)

lemma crowd_coverage:
  "list_all (satisfies crowd_roster) (coverage crowd_students SHIFTS)"
  by (simp add: coverage_def SHIFTS_def crowd_students_def crowd_X crowd_assignment_lookup)

lemma crowd_loads:
  "eval_lin crowd_roster (load_expr ''Ann'' (shift_ids SHIFTS)) = 78"
  "eval_lin crowd_roster (load_expr ''Bob'' (shift_ids SHIFTS)) = 78"
  "eval_lin crowd_roster (load_expr ''Cal'' (shift_ids SHIFTS)) = 78"
  "eval_lin crowd_roster (load_expr ''Dee'' (shift_ids SHIFTS)) = 71"
  "eval_lin crowd_roster (load_expr ''Eve'' (shift_ids SHIFTS)) = 74"
  "eval_lin crowd_roster (load_expr ''Fay'' (shift_ids SHIFTS)) = 74"
  "eval_lin crowd_roster (load_expr ''Gus'' (shift_ids SHIFTS)) = 74"
  "eval_lin crowd_roster (load_expr ''Hal'' (shift_ids SHIFTS)) = 72"
  "eval_lin crowd_roster (load_expr ''Ida'' (shift_ids SHIFTS)) = 75"
  "eval_lin crowd_roster (load_expr ''Jon'' (shift_ids SHIFTS)) = 71"
  "eval_lin crowd_roster (load_expr ''Dana'' (shift_ids SHIFTS)) = 80"
  by (simp_all add: load_expr_def shift_ids_def SHIFTS_def shift_len_def py_round_def SCALE_def
        crowd_X crowd_assignment_lookup)

lemma crowd_total_hours:
  "crowd_roster (TotalHours ''Ann'') = 78" "crowd_roster (TotalHours ''Bob'') = 78"
  "crowd_roster (TotalHours ''Cal'') = 78" "crowd_roster (TotalHours ''Dee'') = 71"
  "crowd_roster (TotalHours ''Eve'') = 74" "crowd_roster (TotalHours ''Fay'') = 74"
  "crowd_roster (TotalHours ''Gus'') = 74" "crowd_roster (TotalHours ''Hal'') = 72"
  "crowd_roster (TotalHours ''Ida'') = 75" "crowd_roster (TotalHours ''Jon'') = 71"
  "crowd_roster (TotalHours ''Dana'') = 80"
  "crowd_roster MaxH = 80" "crowd_roster MinH = 71"
  by (simp_all add: crowd_roster_def crowd_hours_def)

lemma crowd_bool: "0 \<le> crowd_roster (X sid s) \<and> crowd_roster (X sid s) \<le> 1"
  by (simp add: crowd_X split: option.splits)

lemma crowd_solution:
  assumes "build_model crowd_students am SHIFTS = Inr m"
    and "\<forall>s \<in> set crowd_students. \<forall>sid \<in> set (shift_ids SHIFTS). avail_get am s sid \<noteq> 0"
  shows "solution crowd_roster m"
proof -
  have dom_x: "list_all (in_domain crowd_roster) (decision_vars crowd_students SHIFTS)"
    by (rule decision_vars_domain) (rule crowd_bool)
  have dom_t: "list_all (in_domain crowd_roster) (total_hours_vars crowd_students)"
    by (simp add: total_hours_vars_def crowd_students_def in_domain_def crowd_total_hours
          MAX_WEEKLY_HOURS_def SCALE_def)
  have dom_m: "in_domain crowd_roster (MaxH, 0, MAX_WEEKLY_HOURS * SCALE)"
    "in_domain crowd_roster (MinH, 0, MAX_WEEKLY_HOURS * SCALE)"
    by (simp_all add: in_domain_def crowd_total_hours MAX_WEEKLY_HOURS_def SCALE_def)
  have weekly: "list_all (satisfies crowd_roster)
      (map (\<lambda>s. LinLe (load_expr s (shift_ids SHIFTS)) (MAX_WEEKLY_HOURS * SCALE)) crowd_students)"
    by (simp add: crowd_students_def crowd_loads MAX_WEEKLY_HOURS_def SCALE_def)
  have totals: "list_all (satisfies crowd_roster)
      (map (\<lambda>s. VarEq (TotalHours s) (load_expr s (shift_ids SHIFTS))) crowd_students)"
    by (simp add: crowd_students_def crowd_loads crowd_total_hours)
  have keys: "total_hours_values crowd_students =
      map TotalHours [''Ann'', ''Bob'', ''Cal'', ''Dee'', ''Eve'', ''Fay'', ''Gus'', ''Hal'',
                      ''Ida'', ''Jon'', ''Dana'']"
    by (simp add: total_hours_values_def crowd_students_def)
  have maxmin: "satisfies crowd_roster (MaxEquality MaxH (total_hours_values crowd_students))"
    "satisfies crowd_roster (MinEquality MinH (total_hours_values crowd_students))"
    by (simp_all add: keys crowd_total_hours)
  show ?thesis
    unfolding solution_def build_model_parts(1,2)[OF assms(1)] availability_all_free[OF assms(2)]
    using dom_x dom_t dom_m crowd_coverage weekly totals maxmin by simp
qed

lemma crowd_student_names: "student_names crowd_table = crowd_students"
  by (simp add: student_names_def crowd_table_def crowd_names_def crowd_row_def crowd_students_def
        name_col_def column_str_def string_ops)

lemma crowd_cell:
  "parse_ranges example_literal_eval (Str ''['07:00:00 - 19:00:00']'') = Inr [(7, 19)]"
  by (simp add: parse_ranges_def example_literal_eval_def time_ops)

lemma crowd_entries:
  assumes "row \<in> set (rows crowd_table)" and "sid \<in> set (shift_ids SHIFTS)"
  shows "sid_entry example_literal_eval crowd_table row sid = Inr 1"
proof -
  obtain d start "end" where sid: "sid = (d, start, end)"
    by (cases sid) auto
  from assms(1) obtain n where row: "row = crowd_row n"
    by (auto simp: crowd_table_def)
  from SHIFTS_within[OF assms(2)[unfolded sid]] obtain col where
    within: "7 \<le> start" "end \<le> 19" and
    col: "col \<in> set [''MONDAY'', ''TUESDAY'', ''WEDNESDAY'', ''THURSDAY'', ''FRIDAY'',
                      ''SATURDAY'', ''SUNDAY'']" "DAY_ABBR_TO_COL d = Some col"
    by blast
  from col(1) have "row_get crowd_table row col = Str ''['07:00:00 - 19:00:00']''"
    by (auto simp: row_get_def crowd_table_def row crowd_row_def)
  with crowd_cell have "parse_ranges example_literal_eval (row_get crowd_table row col) = Inr [(7, 19)]"
    by simp
  from sid_entry_Inr[OF col(2) this] within show ?thesis
    by (simp add: sid is_available_def)
qed

lemma crowd_load:
  "\<exists>am. load_input_from_excel example_literal_eval crowd_table
           = Inr (InputData crowd_students am SHIFTS)
       \<and> (\<forall>s \<in> set crowd_students. \<forall>sid \<in> set (shift_ids SHIFTS). avail_get am s sid = 1)"
proof -
  have name: "name_col \<in> set (columns crowd_table)"
    by (simp add: name_col_def crowd_table_def)
  have strings: "\<forall>row \<in> set (rows crowd_table). \<exists>n. row name_col = Str n"
    by (auto simp: crowd_table_def crowd_row_def name_col_def)
  note keys = string_names_keys[OF strings]
  from load_input_succeeds[OF name keys] crowd_entries obtain am where
    am: "load_input_from_excel example_literal_eval crowd_table
           = Inr (InputData (student_names crowd_table) am SHIFTS)"
    by blast
  have "avail_get am s sid = 1"
    if s: "s \<in> set (student_names crowd_table)" and sid: "sid \<in> set (shift_ids SHIFTS)" for s sid
  proof -
    obtain d start "end" where sid_eq: "sid = (d, start, end)"
      by (cases sid) auto
    from sid obtain lbl req where sh: "(lbl, d, start, end, req) \<in> set SHIFTS"
      unfolding sid_eq by (auto simp: shift_ids_def)
    from s obtain row where row: "row \<in> set (rows crowd_table)" "row name_col \<noteq> NaN"
      "title (strip (column_str (row name_col))) = s"
      unfolding student_names_mem by blast
    from strings row(1) obtain n where "row name_col = Str n"
      by blast
    with row(3) have key: "row_student row = s"
      by (simp add: row_student_def column_str_def row_str_def)
    from loaded_row_entry[OF am row(1) sh] obtain r e v where
      "r \<in> set (rows crowd_table)" "am (row_student row) = Some e" "e (d, start, end) = Some v"
      "sid_entry example_literal_eval crowd_table r (d, start, end) = Inr v"
      by blast
    with crowd_entries[OF this(1) sid[unfolded sid_eq]] show ?thesis
      by (simp add: avail_get_def key sid_eq)
  qed
  with am show ?thesis
    by (auto simp: crowd_student_names)
qed

section \<open>The claims\<close>

text \<open>
  In what follows a solved instance is a valuation that is a solution of the model
  built by the script: the solver answers \<open>OPTIMAL\<close> or \<open>FEASIBLE\<close> only with such a
  valuation.
\<close>

text \<open>
  C1.  The claim is that in every solved instance the number of people assigned to a
  shift is its required headcount.  The student list of the loader keeps a name that
  two rows share twice, and the coverage constraint sums over the list, so the one
  variable of that name fills two places.  On the table of twelve rows the roster is a
  solution of the model, and the Saturday shift, which requires two people, has one:
  the report lists the name twice.
\<close>

theorem repeated_name_understaffed:
  "\<exists>am m. load_input_from_excel example_literal_eval crowd_table
             = Inr (InputData crowd_students am SHIFTS)
     \<and> build_model crowd_students am SHIFTS = Inr m
     \<and> solution crowd_roster m
     \<and> (''S25'', ''Sat'', 10, 14, 2) \<in> set SHIFTS
     \<and> assigned crowd_roster crowd_students (''Sat'', 10, 14) = [''Dana'', ''Dana'']
     \<and> {s \<in> set crowd_students. crowd_roster (X (''Sat'', 10, 14) s) = 1} = {''Dana''}
     \<and> card {s \<in> set crowd_students. crowd_roster (X (''Sat'', 10, 14) s) = 1} = 1"
proof -
  from crowd_load obtain am where
    am: "load_input_from_excel example_literal_eval crowd_table
           = Inr (InputData crowd_students am SHIFTS)" and
    free: "\<forall>s \<in> set crowd_students. \<forall>sid \<in> set (shift_ids SHIFTS). avail_get am s sid = 1"
    by blast
  obtain m where m: "build_model crowd_students am SHIFTS = Inr m"
    by (simp add: build_model_total)
  from free have "\<forall>s \<in> set crowd_students. \<forall>sid \<in> set (shift_ids SHIFTS). avail_get am s sid \<noteq> 0"
    by simp
  from crowd_solution[OF m this] have sol: "solution crowd_roster m" .
  have s25: "(''S25'', ''Sat'', 10, 14, 2) \<in> set SHIFTS"
    by (simp add: SHIFTS_def)
  have names: "assigned crowd_roster crowd_students (''Sat'', 10, 14) = [''Dana'', ''Dana'']"
    by (simp add: assigned_def crowd_students_def crowd_X crowd_assignment_lookup)
  have people: "{s \<in> set crowd_students. crowd_roster (X (''Sat'', 10, 14) s) = 1} = {''Dana''}"
    by (auto simp: crowd_students_def crowd_X crowd_assignment_lookup)
  from am m sol s25 names people show ?thesis
    by simp
qed

text \<open>
  C2.  For every student and every shift the model has a variable with domain 0 to 1;
  where the availability entry is 0 (or absent) it has the constraint that the
  variable equals 0; so in every solution a student assigned to a shift has an
  availability entry that is not 0.
\<close>

theorem unavailable_forced_zero:
  assumes "build_model students am shifts = Inr m"
    and "s \<in> set students"
    and "(lbl, day, start, end, req) \<in> set shifts"
  shows "(X (day, start, end) s, 0, 1) \<in> set (variables m)
       \<and> (avail_get am s (day, start, end) = 0 \<longrightarrow>
            LinEq [(1, X (day, start, end) s)] 0 \<in> set (constraints m))
       \<and> (\<forall>\<sigma>. solution \<sigma> m \<longrightarrow> s \<in> set (assigned \<sigma> students (day, start, end)) \<longrightarrow>
            avail_get am s (day, start, end) \<noteq> 0)"
proof -
  have var: "(X (day, start, end) s, 0, 1) \<in> set (variables m)"
    using decision_vars_mem[OF assms(2,3)] by (simp add: build_model_parts(1)[OF assms(1)])
  have forced: "LinEq [(1, X (day, start, end) s)] 0 \<in> set (constraints m)"
    if "avail_get am s (day, start, end) = 0"
    using availability_mem[OF assms(2,3) that] by (simp add: build_model_parts(2)[OF assms(1)])
  have "avail_get am s (day, start, end) \<noteq> 0"
    if sol: "solution \<sigma> m" and a: "s \<in> set (assigned \<sigma> students (day, start, end))" for \<sigma>
  proof
    assume "avail_get am s (day, start, end) = 0"
    from solution_constraint[OF sol forced[OF this]] have "\<sigma> (X (day, start, end) s) = 0"
      by simp
    moreover from a have "\<sigma> (X (day, start, end) s) = 1"
      by (simp add: assigned_def)
    ultimately show False by simp
  qed
  with var forced show ?thesis by blast
qed

theorem unavailable_forced_zero_witness:
  "\<exists>m. build_model example_students example_matrix example_shifts = Inr m
     \<and> (X (''Mon'', 9, 12) ''Bob'', 0, 1) \<in> set (variables m)
     \<and> LinEq [(1, X (''Mon'', 9, 12) ''Bob'')] 0 \<in> set (constraints m)
     \<and> ''Ann'' \<in> set (assigned example_valuation example_students (''Mon'', 9, 12))
     \<and> avail_get example_matrix ''Ann'' (''Mon'', 9, 12) \<noteq> 0"
proof -
  from example_solution obtain m where
    m: "build_model example_students example_matrix example_shifts = Inr m" and
    sol: "solution example_valuation m"
    by blast
  have bob: "''Bob'' \<in> set example_students" and ann: "''Ann'' \<in> set example_students"
    by (simp_all add: example_students_def)
  have bob0: "avail_get example_matrix ''Bob'' (''Mon'', 9, 12) = 0"
    by (simp add: avail_get_def example_matrix_def)
  have ann1: "''Ann'' \<in> set (assigned example_valuation example_students (''Mon'', 9, 12))"
    by (simp add: assigned_def example_students_def example_valuation_def)
  from unavailable_forced_zero[OF m bob example_shift] bob0
       unavailable_forced_zero[OF m ann example_shift] sol ann1 m
  show ?thesis by blast
qed

text \<open>
  C3.  The objective of the model is \<open>max_h - min_h\<close> and nothing else.  For every
  student the model has a load variable with domain 0 to \<open>MAX_WEEKLY_HOURS * SCALE\<close>
  and the constraint that it equals the sum of assignment variable times shift length;
  \<open>max_h\<close> and \<open>min_h\<close> are constrained to the maximum and the minimum of the load
  variables.  So in every solution the load variables are the loads, \<open>max_h\<close> and
  \<open>min_h\<close> are their maximum and minimum, and the objective is the difference.  (A
  model for no students has no solution: there is no maximum of no variables.)
\<close>

theorem fairness_objective:
  assumes "build_model students am shifts = Inr m"
  shows "objective m = Some [(1, MaxH), (- 1, MinH)]
       \<and> (\<forall>s \<in> set students.
             (TotalHours s, 0, MAX_WEEKLY_HOURS * SCALE) \<in> set (variables m)
             \<and> VarEq (TotalHours s) (load_expr s (shift_ids shifts)) \<in> set (constraints m))
       \<and> MaxEquality MaxH (total_hours_values students) \<in> set (constraints m)
       \<and> MinEquality MinH (total_hours_values students) \<in> set (constraints m)
       \<and> set (total_hours_values students) = TotalHours ` set students
       \<and> (\<forall>\<sigma>. solution \<sigma> m \<longrightarrow>
             (\<forall>s \<in> set students.
                \<sigma> (TotalHours s) = scaled_load \<sigma> shifts s
                \<and> 0 \<le> \<sigma> (TotalHours s) \<and> \<sigma> (TotalHours s) \<le> MAX_WEEKLY_HOURS * SCALE)
             \<and> \<sigma> MaxH = Max ((\<lambda>s. \<sigma> (TotalHours s)) ` set students)
             \<and> \<sigma> MinH = Min ((\<lambda>s. \<sigma> (TotalHours s)) ` set students)
             \<and> objective_value \<sigma> m
                 = Some (Max ((\<lambda>s. \<sigma> (TotalHours s)) ` set students)
                         - Min ((\<lambda>s. \<sigma> (TotalHours s)) ` set students)))"
proof -
  note vars = build_model_parts(1)[OF assms]
  note cons = build_model_parts(2)[OF assms]
  note obj = build_model_parts(3)[OF assms]
  have tv: "(TotalHours s, 0, MAX_WEEKLY_HOURS * SCALE) \<in> set (variables m)"
    if "s \<in> set students" for s
    using that by (auto simp: vars total_hours_vars_def)
  have td: "VarEq (TotalHours s) (load_expr s (shift_ids shifts)) \<in> set (constraints m)"
    if "s \<in> set students" for s
    using that by (simp add: cons)
  have mx: "MaxEquality MaxH (total_hours_values students) \<in> set (constraints m)"
    and mn: "MinEquality MinH (total_hours_values students) \<in> set (constraints m)"
    by (simp_all add: cons)
  have img: "set (map \<sigma> (total_hours_values students)) = (\<lambda>s. \<sigma> (TotalHours s)) ` set students"
    for \<sigma> :: "var \<Rightarrow> int"
    by (auto simp: set_total_hours_values)
  have sol: "(\<forall>s \<in> set students.
                \<sigma> (TotalHours s) = scaled_load \<sigma> shifts s
                \<and> 0 \<le> \<sigma> (TotalHours s) \<and> \<sigma> (TotalHours s) \<le> MAX_WEEKLY_HOURS * SCALE)
             \<and> \<sigma> MaxH = Max ((\<lambda>s. \<sigma> (TotalHours s)) ` set students)
             \<and> \<sigma> MinH = Min ((\<lambda>s. \<sigma> (TotalHours s)) ` set students)
             \<and> objective_value \<sigma> m
                 = Some (Max ((\<lambda>s. \<sigma> (TotalHours s)) ` set students)
                         - Min ((\<lambda>s. \<sigma> (TotalHours s)) ` set students))"
    if s: "solution \<sigma> m" for \<sigma>
  proof -
    have a: "\<sigma> (TotalHours s) = scaled_load \<sigma> shifts s
           \<and> 0 \<le> \<sigma> (TotalHours s) \<and> \<sigma> (TotalHours s) \<le> MAX_WEEKLY_HOURS * SCALE"
      if "s \<in> set students" for s
      using solution_constraint[OF s td[OF that]] solution_domain[OF s tv[OF that]]
      by (simp add: eval_lin_load_expr)
    have "max_of (map \<sigma> (total_hours_values students)) = Some (\<sigma> MaxH)"
      using solution_constraint[OF s mx] by simp
    from max_of_Some[OF this] have b: "\<sigma> MaxH = Max ((\<lambda>s. \<sigma> (TotalHours s)) ` set students)"
      by (simp only: img)
    have "min_of (map \<sigma> (total_hours_values students)) = Some (\<sigma> MinH)"
      using solution_constraint[OF s mn] by simp
    from min_of_Some[OF this] have c: "\<sigma> MinH = Min ((\<lambda>s. \<sigma> (TotalHours s)) ` set students)"
      by (simp only: img)
    have "objective_value \<sigma> m = Some (\<sigma> MaxH - \<sigma> MinH)"
      by (simp add: objective_value_def obj)
    then have d: "objective_value \<sigma> m
                 = Some (Max ((\<lambda>s. \<sigma> (TotalHours s)) ` set students)
                         - Min ((\<lambda>s. \<sigma> (TotalHours s)) ` set students))"
      using b c by simp
    from a have a': "\<forall>s \<in> set students.
                \<sigma> (TotalHours s) = scaled_load \<sigma> shifts s
                \<and> 0 \<le> \<sigma> (TotalHours s) \<and> \<sigma> (TotalHours s) \<le> MAX_WEEKLY_HOURS * SCALE"
      by blast
    show ?thesis
      by (intro conjI) (rule a' b c d)+
  qed
  have per_student: "\<forall>s \<in> set students.
             (TotalHours s, 0, MAX_WEEKLY_HOURS * SCALE) \<in> set (variables m)
             \<and> VarEq (TotalHours s) (load_expr s (shift_ids shifts)) \<in> set (constraints m)"
    using tv td by blast
  from sol have every: "\<forall>\<sigma>. solution \<sigma> m \<longrightarrow>
             (\<forall>s \<in> set students.
                \<sigma> (TotalHours s) = scaled_load \<sigma> shifts s
                \<and> 0 \<le> \<sigma> (TotalHours s) \<and> \<sigma> (TotalHours s) \<le> MAX_WEEKLY_HOURS * SCALE)
             \<and> \<sigma> MaxH = Max ((\<lambda>s. \<sigma> (TotalHours s)) ` set students)
             \<and> \<sigma> MinH = Min ((\<lambda>s. \<sigma> (TotalHours s)) ` set students)
             \<and> objective_value \<sigma> m
                 = Some (Max ((\<lambda>s. \<sigma> (TotalHours s)) ` set students)
                         - Min ((\<lambda>s. \<sigma> (TotalHours s)) ` set students))"
    by blast
  show ?thesis
    by (intro conjI) (rule obj per_student mx mn set_total_hours_values every)+
qed

theorem fairness_objective_witness:
  "\<exists>m. build_model example_students example_matrix example_shifts = Inr m
     \<and> objective m = Some [(1, MaxH), (- 1, MinH)]
     \<and> example_valuation (TotalHours ''Ann'') = scaled_load example_valuation example_shifts ''Ann''
     \<and> example_valuation MaxH = 12 \<and> example_valuation MinH = 0
     \<and> objective_value example_valuation m = Some 12"
proof -
  from example_solution obtain m where
    m: "build_model example_students example_matrix example_shifts = Inr m" and
    sol: "solution example_valuation m"
    by blast
  have ann: "''Ann'' \<in> set example_students"
    by (simp add: example_students_def)
  have mx: "Max ((\<lambda>s. example_valuation (TotalHours s)) ` set example_students) = 12"
    and mn: "Min ((\<lambda>s. example_valuation (TotalHours s)) ` set example_students) = 0"
    by (simp_all add: example_students_def example_valuation_def)
  from fairness_objective[OF m] sol ann
  have "objective m = Some [(1, MaxH), (- 1, MinH)]"
    and "example_valuation (TotalHours ''Ann'') = scaled_load example_valuation example_shifts ''Ann''"
    and "example_valuation MaxH = Max ((\<lambda>s. example_valuation (TotalHours s)) ` set example_students)"
    and "example_valuation MinH = Min ((\<lambda>s. example_valuation (TotalHours s)) ` set example_students)"
    and "objective_value example_valuation m
           = Some (Max ((\<lambda>s. example_valuation (TotalHours s)) ` set example_students)
                   - Min ((\<lambda>s. example_valuation (TotalHours s)) ` set example_students))"
    by blast+
  with m show ?thesis
    by (simp add: mx mn)
qed

text \<open>
  C4.  A shift is available under a list of parsed intervals exactly when one interval
  of the list contains it: \<open>a \<le> start\<close> and \<open>end \<le> b\<close> for a single \<open>(a, b)\<close>.  This is
  the value the loader stores: for the last row of the table under a name, a shift of
  the catalog and the intervals parsed from the row's cell of the shift's day, the
  entry of the matrix is 1 if some single interval contains the shift and 0 otherwise.
\<close>

theorem availability_single_interval:
  assumes "load_input_from_excel literal_eval df = Inr (InputData students am shifts)"
    and "rows df = pre @ row # post"
    and "\<forall>r \<in> set post. row_student r \<noteq> row_student row"
    and "(lbl, d, start, end, req) \<in> set SHIFTS"
    and "DAY_ABBR_TO_COL d = Some col"
    and "parse_ranges literal_eval (row_get df row col) = Inr parsed"
  shows "(is_available parsed start end \<longleftrightarrow> (\<exists>(a, b) \<in> set parsed. a \<le> start \<and> end \<le> b))
       \<and> avail_get am (row_student row) (d, start, end)
           = (if (\<exists>(a, b) \<in> set parsed. a \<le> start \<and> end \<le> b) then 1 else 0)"
proof -
  from loaded_entry[OF assms(1-4)] obtain e v where
    "am (row_student row) = Some e" "e (d, start, end) = Some v"
    "sid_entry literal_eval df row (d, start, end) = Inr v"
    by blast
  moreover from this(3) have "v = (if is_available parsed start end then 1 else 0)"
    by (simp add: sid_entry_Inr[OF assms(5,6)])
  ultimately have "avail_get am (row_student row) (d, start, end)
                     = (if is_available parsed start end then 1 else 0)"
    by (simp add: avail_get_def)
  then show ?thesis
    by (simp only: is_available_iff simp_thms)
qed

theorem availability_single_interval_witness:
  "\<exists>am. load_input_from_excel example_literal_eval example_table
          = Inr (InputData [''Ann Lee''] am SHIFTS)
      \<and> avail_get am ''Ann Lee'' (''Mon'', 9, 12) = 1
      \<and> avail_get am ''Ann Lee'' (''Mon'', 17, 19) = 0
      \<and> \<not> is_available [(15 / 2, 9)] (29 / 4) 9
      \<and> \<not> is_available [(7, 8), (8, 9)] (29 / 4) 9"
proof -
  from example_load obtain am where
    am: "load_input_from_excel example_literal_eval example_table
           = Inr (InputData [''Ann Lee''] am SHIFTS)"
    by blast
  have rows: "rows example_table = [] @ example_row # []"
    by (simp add: example_table_def)
  have last: "\<forall>r \<in> set []. row_student r \<noteq> row_student example_row"
    by simp
  have s2: "(''S2'', ''Mon'', 9, 12, 4) \<in> set SHIFTS" and s5: "(''S5'', ''Mon'', 17, 19, 3) \<in> set SHIFTS"
    by (simp_all add: SHIFTS_def)
  have mon: "DAY_ABBR_TO_COL ''Mon'' = Some ''MONDAY''"
    by (simp add: DAY_ABBR_TO_COL_def)
  from availability_single_interval[OF am rows last s2 mon example_monday]
  have "avail_get am ''Ann Lee'' (''Mon'', 9, 12) = 1"
    by (simp add: example_row_student)
  moreover from availability_single_interval[OF am rows last s5 mon example_monday]
  have "avail_get am ''Ann Lee'' (''Mon'', 17, 19) = 0"
    by (simp add: example_row_student)
  moreover have "\<not> is_available [(15 / 2, 9)] (29 / 4) 9"
    and "\<not> is_available [(7, 8), (8, 9)] (29 / 4) 9"
    by (simp_all add: is_available_def)
  ultimately show ?thesis
    using am by blast
qed

text \<open>
  C5.  For every student the model has the linear inequality that the sum of
  assignment variable times shift length in quarter hours is at most
  \<open>MAX_WEEKLY_HOURS * SCALE\<close>, which is 80; so in every solution the load of every
  student is at most 80 quarter hours.
\<close>

theorem weekly_cap:
  assumes "build_model students am shifts = Inr m"
    and "s \<in> set students"
  shows "LinLe (load_expr s (shift_ids shifts)) (MAX_WEEKLY_HOURS * SCALE) \<in> set (constraints m)
       \<and> MAX_WEEKLY_HOURS * SCALE = 80
       \<and> (\<forall>\<sigma>. solution \<sigma> m \<longrightarrow>
            eval_lin \<sigma> (load_expr s (shift_ids shifts)) = scaled_load \<sigma> shifts s
            \<and> scaled_load \<sigma> shifts s \<le> 80)"
proof -
  have "LinLe (load_expr s (shift_ids shifts)) (MAX_WEEKLY_HOURS * SCALE) \<in> set (constraints m)"
    using assms(2) by (simp add: build_model_parts(2)[OF assms(1)])
  moreover have cap: "MAX_WEEKLY_HOURS * SCALE = 80"
    by (simp add: MAX_WEEKLY_HOURS_def SCALE_def)
  moreover have "scaled_load \<sigma> shifts s \<le> 80" if "solution \<sigma> m" for \<sigma>
    using solution_weekly[OF assms(1) that assms(2)] by (simp add: cap)
  ultimately show ?thesis
    by (simp add: eval_lin_load_expr)
qed

theorem weekly_cap_witness:
  "scaled_load example_valuation example_shifts ''Ann'' = 12
   \<and> scaled_load example_valuation example_shifts ''Ann'' \<le> 80"
proof -
  from example_solution obtain m where
    m: "build_model example_students example_matrix example_shifts = Inr m" and
    sol: "solution example_valuation m"
    by blast
  have "''Ann'' \<in> set example_students"
    by (simp add: example_students_def)
  from weekly_cap[OF m this] sol
  have "scaled_load example_valuation example_shifts ''Ann'' \<le> 80"
    by blast
  moreover have "scaled_load example_valuation example_shifts ''Ann'' = 12"
    by (simp add: scaled_load_def example_shifts_def example_valuation_def py_round_def SCALE_def)
  ultimately show ?thesis by simp
qed

text \<open>
  C6.  The claim is that every cell that fails to parse gives no intervals for the day
  and never an error.  Two cells show otherwise.  An item that has the separator but
  is not a pair of times makes \<open>strptime\<close> raise \<open>ValueError\<close>; nothing catches it, and
  the load and the whole script end with that error.  And an item without the
  separator beside a valid range leaves the valid range in place.
\<close>

theorem parse_failure_counterexample:
  "example_literal_eval ''['ab - cd']'' = Some (PySeq [PyStr ''ab - cd''])
   \<and> parse_ranges example_literal_eval (Str ''['ab - cd']'') = Inl ValueError
   \<and> load_input_from_excel example_literal_eval bad_table = Inl ValueError
   \<and> main example_literal_eval bad_table (\<lambda>m. (UNKNOWN, \<lambda>v. 0)) = Inl ValueError
   \<and> parse_ranges example_literal_eval (Str ''['09:00:00 - 12:00:00', 'junk']'') = Inr [(9, 12)]"
proof -
  have cell: "parse_ranges example_literal_eval (Str ''['ab - cd']'') = Inl ValueError"
    by (simp add: parse_ranges_def example_literal_eval_def time_ops)
  have "sid_entry example_literal_eval bad_table bad_row (''Mon'', 29 / 4, 9) = Inl ValueError"
    using cell by (simp add: sid_entry_def DAY_ABBR_TO_COL_def row_get_def bad_table_def bad_row_def)
  then have "shifts_loop example_literal_eval bad_table bad_row student SHIFTS am = Inl ValueError"
    for student am
    unfolding SHIFTS_def shifts_loop_Cons by simp
  then have load: "load_input_from_excel example_literal_eval bad_table = Inl ValueError"
    by (simp add: load_input_from_excel_def bad_table_def name_col_def)
  have "parse_ranges example_literal_eval (Str ''['09:00:00 - 12:00:00', 'junk']'') = Inr [(9, 12)]"
    by (simp add: parse_ranges_def example_literal_eval_def time_ops)
  with cell load show ?thesis
    by (simp add: main_def example_literal_eval_def)
qed

text \<open>
  C6, as the code has it.  A cell that is not a string, a cell whose text
  \<open>ast.literal_eval\<close> rejects, and a cell whose list holds no string with the separator
  all parse to no interval, without an error; and a cell that parses to no interval
  gives the entry 0 for every shift of its day.
\<close>

theorem unparsable_cell_empty:
  "parse_ranges literal_eval NaN = Inr []
   \<and> parse_ranges literal_eval (Other t u) = Inr []
   \<and> (literal_eval s = None \<longrightarrow> parse_ranges literal_eval (Str s) = Inr [])
   \<and> (literal_eval s = Some (PySeq items) \<longrightarrow> list_all (\<lambda>v. \<not> has_separator v) items \<longrightarrow>
        parse_ranges literal_eval (Str s) = Inr [])
   \<and> (DAY_ABBR_TO_COL d = Some col \<longrightarrow>
        parse_ranges literal_eval (row_get df row col) = Inr [] \<longrightarrow>
        sid_entry literal_eval df row (d, start, end) = Inr 0)"
  by (simp add: parse_ranges_def parse_items_no_separator sid_entry_def is_available_def)

theorem unparsable_cell_empty_witness:
  "parse_ranges example_literal_eval (Str ''9 to 12'') = Inr []
   \<and> parse_ranges example_literal_eval (Str ''['junk']'') = Inr []
   \<and> sid_entry example_literal_eval junk_table junk_row (''Mon'', 9, 12) = Inr 0"
proof -
  have none: "example_literal_eval ''9 to 12'' = None"
    by (simp add: example_literal_eval_def)
  have junk: "example_literal_eval ''['junk']'' = Some (PySeq [PyStr ''junk''])"
    by (simp add: example_literal_eval_def)
  have skip: "list_all (\<lambda>v. \<not> has_separator v) [PyStr ''junk'']"
    by simp
  have mon: "DAY_ABBR_TO_COL ''Mon'' = Some ''MONDAY''"
    by (simp add: DAY_ABBR_TO_COL_def)
  have cell: "row_get junk_table junk_row ''MONDAY'' = Str ''['junk']''"
    by (simp add: row_get_def junk_table_def junk_row_def)
  note inst = unparsable_cell_empty[of example_literal_eval _ _ _ _ "''Mon''" "''MONDAY''"
                junk_table junk_row 9 12]
  from inst[of _ _ "''9 to 12''"] none
  have a: "parse_ranges example_literal_eval (Str ''9 to 12'') = Inr []"
    by blast
  from inst[of _ _ "''['junk']''" "[PyStr ''junk'']"] junk skip
  have b: "parse_ranges example_literal_eval (Str ''['junk']'') = Inr []"
    by blast
  from inst[of _ _ "''['junk']''" "[PyStr ''junk'']"] mon b
  have "sid_entry example_literal_eval junk_table junk_row (''Mon'', 9, 12) = Inr 0"
    unfolding cell by blast
  with a b show ?thesis by simp
qed

text \<open>
  C7.  The claim is that an item without the separator empties the intervals of the
  cell.  It does not: on the cell \<open>['09:00:00 - 12:00:00', 'junk']\<close> the loader returns
  the interval from 9 to 12.
\<close>

theorem missing_separator_counterexample:
  "example_literal_eval ''['09:00:00 - 12:00:00', 'junk']''
     = Some (PySeq [PyStr ''09:00:00 - 12:00:00'', PyStr ''junk''])
   \<and> CHR ''-'' \<notin> set ''junk''
   \<and> parse_ranges example_literal_eval (Str ''['09:00:00 - 12:00:00', 'junk']'') = Inr [(9, 12)]
   \<and> parse_ranges example_literal_eval (Str ''['09:00:00 - 12:00:00', 'junk']'') \<noteq> Inr []
   \<and> is_available [(9, 12)] 9 12"
  by (simp add: parse_ranges_def example_literal_eval_def time_ops is_available_def)

text \<open>
  C7, as the code has it.  An item that is not a string or has no separator is skipped:
  the intervals of the cell are those of the list without that item.
\<close>

theorem missing_separator_skipped:
  assumes "literal_eval s = Some (PySeq (pre @ item # post))"
    and "\<not> has_separator item"
  shows "parse_ranges literal_eval (Str s) = parse_items (pre @ post)"
proof -
  have "parse_ranges literal_eval (Str s) = parse_items (pre @ item # post)"
    using assms(1) by (simp add: parse_ranges_def)
  also have "\<dots> = parse_items (filter has_separator (pre @ item # post))"
    by (simp only: parse_items_filter)
  also have "filter has_separator (pre @ item # post) = filter has_separator (pre @ post)"
    using assms(2) by simp
  also have "parse_items (filter has_separator (pre @ post)) = parse_items (pre @ post)"
    by (rule parse_items_filter)
  finally show ?thesis .
qed

theorem missing_separator_skipped_witness:
  "parse_ranges example_literal_eval (Str ''['09:00:00 - 12:00:00', 'junk']'')
     = parse_items [PyStr ''09:00:00 - 12:00:00'']"
proof -
  have "example_literal_eval ''['09:00:00 - 12:00:00', 'junk']''
          = Some (PySeq ([PyStr ''09:00:00 - 12:00:00''] @ PyStr ''junk'' # []))"
    by (simp add: example_literal_eval_def)
  moreover have "\<not> has_separator (PyStr ''junk'')"
    by simp
  ultimately have "parse_ranges example_literal_eval (Str ''['09:00:00 - 12:00:00', 'junk']'')
                     = parse_items ([PyStr ''09:00:00 - 12:00:00''] @ [])"
    by (rule missing_separator_skipped)
  then show ?thesis by simp
qed

text \<open>
  C8.  The claim is that two rows whose names normalise to the same string are one
  person everywhere in the loaded data.  In the availability matrix they are one key,
  but the student list keeps one entry for every row: the name occurs in it twice.
\<close>

theorem duplicate_names_kept:
  "\<exists>am. load_input_from_excel example_literal_eval duplicate_table
          = Inr (InputData [''Alice'', ''Alice''] am SHIFTS)
      \<and> dom am = {''Alice''}"
proof -
  have names: "student_names duplicate_table = [''Alice'', ''Alice'']"
    by (simp add: student_names_def duplicate_table_def name_col_def column_str_def string_ops)
  have name: "name_col \<in> set (columns duplicate_table)"
    by (simp add: name_col_def duplicate_table_def)
  have keys: "\<forall>row \<in> set (rows duplicate_table).
                row_student row \<in> set (student_names duplicate_table)"
    by (rule string_names_keys) (simp add: name_col_def duplicate_table_def)
  have "\<exists>v. sid_entry example_literal_eval duplicate_table row sid = Inr v"
    if "row \<in> set (rows duplicate_table)" and sid: "sid \<in> set (shift_ids SHIFTS)" for row sid
  proof -
    obtain d start "end" where sid_eq: "sid = (d, start, end)"
      by (cases sid) auto
    from SHIFTS_days sid obtain c where c: "DAY_ABBR_TO_COL d = Some c"
      unfolding sid_eq by blast
    then have "c \<notin> set (columns duplicate_table)"
      by (auto simp: duplicate_table_def DAY_ABBR_TO_COL_def split: if_splits)
    with example_literal_eval_empty
    have "parse_ranges example_literal_eval (row_get duplicate_table row c) = Inr []"
      by (rule parse_ranges_default)
    then show ?thesis
      unfolding sid_eq using sid_entry_Inr[OF c] by blast
  qed
  with load_input_succeeds[OF name keys] obtain am where
    am: "load_input_from_excel example_literal_eval duplicate_table
           = Inr (InputData (student_names duplicate_table) am SHIFTS)"
    by blast
  from rows_loop_dom[OF load_input_Inr(4)[OF am]]
  have "dom am = set (student_names duplicate_table)"
    by (auto simp: dom_def split: if_splits)
  with am show ?thesis
    by (simp add: names)
qed

text \<open>
  C9.  The claim is that the model is infeasible whenever the work required exceeds the
  number of people times the weekly cap.  For the same reason as in C1 it is not: the
  table of twelve rows has eleven people, the catalog requires 905 quarter hours, more
  than 11 times 80, and yet the roster is a solution; with it the script prints a
  schedule.
\<close>

theorem repeated_name_overload_feasible:
  "\<exists>am m. load_input_from_excel example_literal_eval crowd_table
             = Inr (InputData crowd_students am SHIFTS)
     \<and> build_model crowd_students am SHIFTS = Inr m
     \<and> card (set crowd_students) = 11
     \<and> int (card (set crowd_students)) * (MAX_WEEKLY_HOURS * SCALE) = 880
     \<and> total_demand SHIFTS = 905
     \<and> solution crowd_roster m
     \<and> sound_answer m FEASIBLE crowd_roster
     \<and> (\<exists>lines hours gap.
           main example_literal_eval crowd_table (\<lambda>m. (FEASIBLE, crowd_roster))
             = Inr (Schedule lines hours gap))"
proof -
  from crowd_load obtain am where
    am: "load_input_from_excel example_literal_eval crowd_table
           = Inr (InputData crowd_students am SHIFTS)" and
    free: "\<forall>s \<in> set crowd_students. \<forall>sid \<in> set (shift_ids SHIFTS). avail_get am s sid = 1"
    by blast
  obtain m where m: "build_model crowd_students am SHIFTS = Inr m"
    by (simp add: build_model_total)
  from free have "\<forall>s \<in> set crowd_students. \<forall>sid \<in> set (shift_ids SHIFTS). avail_get am s sid \<noteq> 0"
    by simp
  from crowd_solution[OF m this] have sol: "solution crowd_roster m" .
  have people: "card (set crowd_students) = 11"
    by (simp add: crowd_students_def)
  then have cap: "int (card (set crowd_students)) * (MAX_WEEKLY_HOURS * SCALE) = 880"
    by (simp add: MAX_WEEKLY_HOURS_def SCALE_def)
  have "\<exists>lines hours gap.
          main example_literal_eval crowd_table (\<lambda>m. (FEASIBLE, crowd_roster))
            = Inr (Schedule lines hours gap)"
    by (simp add: main_def am m report_of_def)
  with am m sol people cap show ?thesis
    by (simp add: sound_answer_def total_demand_SHIFTS)
qed

text \<open>
  C10.  Let the column of a weekday be absent from the table, and let
  \<open>ast.literal_eval\<close> raise on the empty text.  Then for every row the cell read for
  that day is the empty text and parses to no interval, without an error.  If moreover
  the rest of the table loads (the name column is there, the key of every row is in the
  student list, and the cells of the weekday columns that are there parse), the load
  succeeds, the entry stored under the key of every row is 0 for every shift of that
  day, and so is the availability of every student of the list.
\<close>

theorem missing_column_unavailable:
  assumes "literal_eval [] = None"
    and "name_col \<in> set (columns df)"
    and "\<forall>row \<in> set (rows df). row_student row \<in> set (student_names df)"
    and "\<forall>row \<in> set (rows df). \<forall>d c. DAY_ABBR_TO_COL d = Some c \<longrightarrow> c \<in> set (columns df) \<longrightarrow>
           (\<exists>p. parse_ranges literal_eval (row c) = Inr p)"
    and "DAY_ABBR_TO_COL day = Some col"
    and "col \<notin> set (columns df)"
  shows "(\<forall>row. row_get df row col = Str [] \<and> parse_ranges literal_eval (row_get df row col) = Inr [])
       \<and> (\<exists>am. load_input_from_excel literal_eval df = Inr (InputData (student_names df) am SHIFTS)
             \<and> (\<forall>(lbl, d, start, end, req) \<in> set SHIFTS. d = day \<longrightarrow>
                   (\<forall>row \<in> set (rows df).
                      \<exists>e. am (row_student row) = Some e \<and> e (d, start, end) = Some 0)
                   \<and> (\<forall>s \<in> set (student_names df). avail_get am s (d, start, end) = 0)))"
proof -
  have absent: "parse_ranges literal_eval (row_get df row col) = Inr []" for row
    using assms(1,6) by (rule parse_ranges_default)
  have entries: "\<exists>v. sid_entry literal_eval df row sid = Inr v"
    if row: "row \<in> set (rows df)" and sid: "sid \<in> set (shift_ids SHIFTS)" for row sid
  proof -
    obtain d start "end" where sid_eq: "sid = (d, start, end)"
      by (cases sid) auto
    from SHIFTS_days sid obtain c where c: "DAY_ABBR_TO_COL d = Some c"
      unfolding sid_eq by blast
    have "\<exists>p. parse_ranges literal_eval (row_get df row c) = Inr p"
    proof (cases "c \<in> set (columns df)")
      case True
      with assms(4) row c show ?thesis by (simp add: row_get_def)
    next
      case False
      with assms(1) show ?thesis by (simp add: parse_ranges_default)
    qed
    then show ?thesis
      unfolding sid_eq using sid_entry_Inr[OF c] by blast
  qed
  from load_input_succeeds[OF assms(2,3)] entries obtain am where
    am: "load_input_from_excel literal_eval df = Inr (InputData (student_names df) am SHIFTS)"
    by blast
  have zero: "sid_entry literal_eval df r (day, start, end) = Inr v \<Longrightarrow> v = 0" for r start "end" v
    by (simp add: sid_entry_Inr[OF assms(5) absent] is_available_def)
  have of_row: "\<exists>e. am (row_student row) = Some e \<and> e (day, start, end) = Some 0"
    if row: "row \<in> set (rows df)" and sh: "(lbl, day, start, end, req) \<in> set SHIFTS"
    for row lbl start "end" req
    using loaded_row_entry[OF am row sh] zero by blast
  have of_student: "avail_get am s (day, start, end) = 0"
    if s: "s \<in> set (student_names df)" and sh: "(lbl, day, start, end, req) \<in> set SHIFTS"
    for s lbl start "end" req
  proof (cases "\<exists>row \<in> set (rows df). row_student row = s")
    case True
    then obtain row where "row \<in> set (rows df)" "row_student row = s"
      by blast
    with of_row[OF this(1) sh] show ?thesis
      by (auto simp: avail_get_def)
  next
    case False
    then have "\<forall>r \<in> set (rows df). row_student r \<noteq> s"
      by blast
    from loaded_no_row[OF am s this] show ?thesis
      by (simp add: avail_get_def)
  qed
  have both: "(\<forall>row \<in> set (rows df).
                 \<exists>e. am (row_student row) = Some e \<and> e (day, start, end) = Some 0)
              \<and> (\<forall>s \<in> set (student_names df). avail_get am s (day, start, end) = 0)"
    if sh: "(lbl, day, start, end, req) \<in> set SHIFTS" for lbl start "end" req
    using of_row[OF _ sh] of_student[OF _ sh] by blast
  have "\<forall>(lbl, d, start, end, req) \<in> set SHIFTS. d = day \<longrightarrow>
          (\<forall>row \<in> set (rows df).
             \<exists>e. am (row_student row) = Some e \<and> e (d, start, end) = Some 0)
          \<and> (\<forall>s \<in> set (student_names df). avail_get am s (d, start, end) = 0)"
  proof (intro ballI)
    fix sh assume mem: "sh \<in> set SHIFTS"
    obtain lbl d start "end" req where sh: "sh = (lbl, d, start, end, req)"
      by (cases sh) auto
    show "case sh of (lbl, d, start, end, req) \<Rightarrow> d = day \<longrightarrow>
            (\<forall>row \<in> set (rows df).
               \<exists>e. am (row_student row) = Some e \<and> e (d, start, end) = Some 0)
            \<and> (\<forall>s \<in> set (student_names df). avail_get am s (d, start, end) = 0)"
      unfolding sh using both mem[unfolded sh] by (simp only: prod.case) blast
  qed
  with am absent assms(6) show ?thesis
    by (auto simp: row_get_def)
qed

theorem missing_column_unavailable_witness:
  "parse_ranges example_literal_eval (row_get example_table example_row ''TUESDAY'') = Inr []
   \<and> (\<exists>am. load_input_from_excel example_literal_eval example_table
              = Inr (InputData [''Ann Lee''] am SHIFTS)
          \<and> (\<exists>e. am ''Ann Lee'' = Some e \<and> e (''Tue'', 9, 12) = Some 0)
          \<and> avail_get am ''Ann Lee'' (''Tue'', 9, 12) = 0)"
proof -
  have name: "name_col \<in> set (columns example_table)"
    by (simp add: name_col_def example_table_def)
  have keys: "\<forall>row \<in> set (rows example_table). row_student row \<in> set (student_names example_table)"
    by (rule string_names_keys) (simp add: name_col_def example_table_def example_row_def)
  have cells: "\<forall>row \<in> set (rows example_table). \<forall>d c. DAY_ABBR_TO_COL d = Some c \<longrightarrow>
                 c \<in> set (columns example_table) \<longrightarrow>
                 (\<exists>p. parse_ranges example_literal_eval (row c) = Inr p)"
    using example_cells by (simp add: example_table_def)
  have tue: "DAY_ABBR_TO_COL ''Tue'' = Some ''TUESDAY''"
    by (simp add: DAY_ABBR_TO_COL_def)
  have absent: "''TUESDAY'' \<notin> set (columns example_table)"
    by (simp add: example_table_def)
  have s7: "(''S7'', ''Tue'', 9, 12, 4) \<in> set SHIFTS"
    by (simp add: SHIFTS_def)
  have ann: "''Ann Lee'' \<in> set (student_names example_table)"
    by (simp add: example_student_names)
  have row: "example_row \<in> set (rows example_table)"
    by (simp add: example_table_def)
  from missing_column_unavailable[OF example_literal_eval_empty name keys cells tue absent]
  obtain am where
    am: "load_input_from_excel example_literal_eval example_table
           = Inr (InputData (student_names example_table) am SHIFTS)" and
    all: "\<forall>(lbl, d, start, end, req) \<in> set SHIFTS. d = ''Tue'' \<longrightarrow>
            (\<forall>row \<in> set (rows example_table).
               \<exists>e. am (row_student row) = Some e \<and> e (d, start, end) = Some 0)
            \<and> (\<forall>s \<in> set (student_names example_table). avail_get am s (d, start, end) = 0)" and
    cell: "parse_ranges example_literal_eval (row_get example_table example_row ''TUESDAY'') = Inr []"
    by blast
  from all s7 row ann
  have "\<exists>e. am (row_student example_row) = Some e \<and> e (''Tue'', 9, 12) = Some 0"
    and "avail_get am ''Ann Lee'' (''Tue'', 9, 12) = 0"
    by fastforce+
  with am cell show ?thesis
    by (auto simp: example_student_names example_row_student)
qed

end
